theory Spec2Isabelle
  imports Complex_Main "HOL-Library.Word" "HOL-Library.Sublist"
begin

unbundle bit_operations_syntax

section \<open>Direct3D7 renderer backend: software clipping, state backup, font texture\<close>

text \<open>
  A shallow embedding of \<^verbatim>\<open>ImGui/imgui_impl_dx7.cpp\<close>.

  Conventions of the embedding.
  \<^item> A C++ \<^verbatim>\<open>float\<close> is a \<^typ>\<open>real\<close>: arithmetic is exact, there is no rounding, no
    overflow, no NaN and no infinity. Every statement below about coordinates is a
    statement of exact arithmetic. The concrete inputs used further down are dyadic
    rationals on which the single-precision operations of the source are exact as well
    (or, where a quotient such as 1/3 is rounded, the rounding does not change the
    comparison the statement is about).
  \<^item> \<^verbatim>\<open>D3DCOLOR\<close>, \<^verbatim>\<open>DWORD\<close> and \<^verbatim>\<open>ImU32\<close> are \<^typ>\<open>32 word\<close>; \<^verbatim>\<open>WORD\<close> and
    \<^verbatim>\<open>ImDrawIdx\<close> are \<^typ>\<open>16 word\<close>; a C++ \<^verbatim>\<open>int\<close> that holds a colour channel or a
    side number is an \<^typ>\<open>int\<close>.
  \<^item> The fixed arrays \<^verbatim>\<open>poly[8]\<close> and \<^verbatim>\<open>next[8]\<close> and the \<^verbatim>\<open>std::vector\<close>s are lists. That
    the two arrays never hold more than seven vertices is proved in the last section, not
    assumed.
\<close>

subsection \<open>Vertices and rectangles\<close>

text \<open>\<^verbatim>\<open>struct ClippedVert { float x, y, z, rhw; D3DCOLOR col; float u, v; }\<close>\<close>

record ClippedVert =
  cv_x :: real
  cv_y :: real
  cv_z :: real
  cv_rhw :: real
  cv_col :: "32 word"
  cv_u :: real
  cv_v :: real

text \<open>\<^verbatim>\<open>ImVec4\<close>; as a clip rectangle it is \<open>(minX, minY, maxX, maxY) = (x, y, z, w)\<close>.\<close>

record ImVec4 =
  v4_x :: real
  v4_y :: real
  v4_z :: real
  v4_w :: real

subsection \<open>Helpers for software clipping\<close>

text \<open>\<^verbatim>\<open>static inline float Lerp(float a, float b, float t) { return a + (b - a) * t; }\<close>\<close>

definition Lerp :: "real \<Rightarrow> real \<Rightarrow> real \<Rightarrow> real" where
  "Lerp a b t = a + (b - a) * t"

text \<open>
  \<^verbatim>\<open>InsideBySide\<close>: side 0 is left, 1 top, 2 right, anything else bottom (the
  \<^verbatim>\<open>default\<close> branch of the switch).
\<close>

definition InsideBySide :: "ClippedVert \<Rightarrow> ImVec4 \<Rightarrow> int \<Rightarrow> bool" where
  "InsideBySide p R side =
     (if side = 0 then cv_x p \<ge> v4_x R
      else if side = 1 then cv_y p \<ge> v4_y R
      else if side = 2 then cv_x p \<le> v4_z R
      else cv_y p \<le> v4_w R)"

text \<open>
  \<^verbatim>\<open>const float EPS = 1e-6f;\<close> The model takes the decimal value \<open>10\<^sup>-\<^sup>6\<close>; the
  single-precision constant is smaller by less than \<open>3 * 10\<^sup>-\<^sup>1\<^sup>5\<close>. The concrete edges used
  below to reach the fallback have deltas \<open>2\<^sup>-\<^sup>2\<^sup>0\<close> and \<open>2\<^sup>-\<^sup>2\<^sup>1\<close>, well below both.
\<close>

definition EPS :: real where
  "EPS = 1 / 1000000"

text \<open>The conversion \<^verbatim>\<open>(int)f\<close> of a float to an int truncates towards zero.\<close>

definition float_to_int :: "real \<Rightarrow> int" where
  "float_to_int f = (if 0 \<le> f then \<lfloor>f\<rfloor> else \<lceil>f\<rceil>)"

text \<open>
  The lambda \<^verbatim>\<open>lerpB = [&](int a, int b) { return (int)(a + t * (b - a) + 0.5f); }\<close>,
  with the captured \<open>t\<close> as its first argument.
\<close>

definition lerpB :: "real \<Rightarrow> int \<Rightarrow> int \<Rightarrow> int" where
  "lerpB t a b = float_to_int (of_int a + t * of_int (b - a) + 1 / 2)"

text \<open>A colour channel \<^verbatim>\<open>(col >> sh) & 0xFF\<close>, read into an \<^verbatim>\<open>int\<close>.\<close>

definition channel :: "32 word \<Rightarrow> nat \<Rightarrow> int" where
  "channel c sh = uint (drop_bit sh c AND 0xFF)"

text \<open>
  Lines 159 to 175 of \<^verbatim>\<open>IntersectWithSide\<close>, which both branches of the function reach
  with the position \<open>(x, y)\<close> and the unclamped parameter \<open>t\<close> they computed: the clamp
  of \<open>t\<close> to \<open>[0, 1]\<close>, then the remaining attributes of \<^verbatim>\<open>Rv\<close>.
\<close>

definition InterpolateRest :: "ClippedVert \<Rightarrow> ClippedVert \<Rightarrow> real \<Rightarrow> real \<Rightarrow> real \<Rightarrow> ClippedVert" where
  "InterpolateRest P Q x y t0 =
     (let t = (if t0 < 0 then 0 else if t0 > 1 then 1 else t0);
          a1 = channel (cv_col P) 24; r1 = channel (cv_col P) 16;
          g1 = channel (cv_col P) 8;  b1 = channel (cv_col P) 0;
          a2 = channel (cv_col Q) 24; r2 = channel (cv_col Q) 16;
          g2 = channel (cv_col Q) 8;  b2 = channel (cv_col Q) 0
      in P\<lparr> cv_x := x, cv_y := y,
            cv_z := cv_z P + t * (cv_z Q - cv_z P),
            cv_rhw := cv_rhw P + t * (cv_rhw Q - cv_rhw P),
            cv_u := cv_u P + t * (cv_u Q - cv_u P),
            cv_v := cv_v P + t * (cv_v Q - cv_v P),
            cv_col := word_of_int (push_bit 24 (lerpB t a1 a2) OR push_bit 16 (lerpB t r1 r2)
                        OR push_bit 8 (lerpB t g1 g2) OR lerpB t b1 b2) \<rparr>)"

definition IntersectWithSide :: "ClippedVert \<Rightarrow> ClippedVert \<Rightarrow> int \<Rightarrow> ImVec4 \<Rightarrow> ClippedVert" where
  "IntersectWithSide P Q side R =
     (let dx = cv_x Q - cv_x P; dy = cv_y Q - cv_y P in
      if side = 0 \<or> side = 2 then
        (let x = (if side = 0 then v4_x R else v4_z R) in
         if \<bar>dx\<bar> < EPS then P
         else (let t = (x - cv_x P) / dx; y = cv_y P + t * dy in InterpolateRest P Q x y t))
      else
        (let y = (if side = 1 then v4_y R else v4_w R) in
         if \<bar>dy\<bar> < EPS then P
         else (let t = (y - cv_y P) / dy; x = cv_x P + t * dx in InterpolateRest P Q x y t)))"

subsection \<open>Sutherland-Hodgman clipping of one triangle\<close>

text \<open>
  The body of the inner loop of \<^verbatim>\<open>EmitClippedTri\<close> for one edge \<open>P \<rightarrow> Q\<close>: the vertices
  it stores into \<^verbatim>\<open>next\<close>.
\<close>

definition clip_edge :: "ImVec4 \<Rightarrow> int \<Rightarrow> ClippedVert \<Rightarrow> ClippedVert \<Rightarrow> ClippedVert list" where
  "clip_edge R side P Q =
     (let inP = InsideBySide P R side; inQ = InsideBySide Q R side in
      if inP \<and> inQ then [Q]
      else if inP \<and> \<not> inQ then [IntersectWithSide P Q side R]
      else if \<not> inP \<and> inQ then [IntersectWithSide P Q side R, Q]
      else [])"

text \<open>
  The inner loop \<^verbatim>\<open>for (int i = 0; i < n; ++i)\<close> over the edges
  \<open>poly[i] \<rightarrow> poly[(i + 1) % n]\<close>: the contents of \<^verbatim>\<open>next\<close> after it, which become the
  new \<^verbatim>\<open>poly\<close>.
\<close>

definition clip_side :: "ImVec4 \<Rightarrow> int \<Rightarrow> ClippedVert list \<Rightarrow> ClippedVert list" where
  "clip_side R side poly =
     concat (map (\<lambda>i. clip_edge R side (poly ! i) (poly ! ((i + 1) mod length poly)))
                 [0 ..< length poly])"

text \<open>The outer loop \<^verbatim>\<open>for (int side = 0; side < 4 && n; ++side)\<close>.\<close>

function clip_loop :: "ImVec4 \<Rightarrow> int \<Rightarrow> ClippedVert list \<Rightarrow> ClippedVert list" where
  "clip_loop R side poly =
     (if side < 4 \<and> length poly \<noteq> 0 then clip_loop R (side + 1) (clip_side R side poly)
      else poly)"
  by pat_completeness auto
termination
  by (relation "measure (\<lambda>(R, side, poly). nat (4 - side))") auto

text \<open>
  The fan triangulation \<^verbatim>\<open>for (int i = 1; i < n - 1; ++i)\<close>: the indices pushed to
  \<^verbatim>\<open>out_i\<close>. \<^verbatim>\<open>base + i\<close> is computed in \<^verbatim>\<open>int\<close> and truncated to a \<^verbatim>\<open>WORD\<close> by
  \<^verbatim>\<open>push_back\<close>, which is the addition of \<^typ>\<open>16 word\<close>.
\<close>

definition fan_indices :: "16 word \<Rightarrow> nat \<Rightarrow> 16 word list" where
  "fan_indices base n =
     concat (map (\<lambda>i. [base, base + of_nat i, base + of_nat i + 1]) [1 ..< n - 1])"

text \<open>
  \<^verbatim>\<open>EmitClippedTri\<close>: the pair \<open>(out_v, out_i)\<close> is passed in and returned updated.
\<close>

definition EmitClippedTri ::
  "ClippedVert \<Rightarrow> ClippedVert \<Rightarrow> ClippedVert \<Rightarrow> ImVec4 \<Rightarrow>
   ClippedVert list \<times> 16 word list \<Rightarrow> ClippedVert list \<times> 16 word list" where
  "EmitClippedTri a b c R out =
     (let poly = clip_loop R 0 [a, b, c]; n = length poly in
      if n < 3 then out
      else (let base = (of_nat (length (fst out)) :: 16 word) in
            (fst out @ poly, snd out @ fan_indices base n)))"


subsection \<open>The Direct3D7 device\<close>

text \<open>
  \<^verbatim>\<open>IDirect3DDevice7\<close> and \<^verbatim>\<open>IDirectDrawSurface7\<close> are interfaces of the operating system,
  not code of this repository. The backend only calls them, so the device is an explicit
  store: every \<^verbatim>\<open>Get\<close> call succeeds and returns the value last \<^verbatim>\<open>Set\<close>, a surface carries
  a COM reference count, \<^verbatim>\<open>GetTexture\<close> adds a reference to the surface it returns, and the
  device keeps one reference on each surface bound to a texture stage (\<^verbatim>\<open>SetTexture\<close> adds
  one for the new surface and drops the one of the surface it replaces). The field
  \<open>calls\<close> records the calls in the order they are made.
\<close>

type_synonym surface = nat

type_synonym D3DMATRIX = "32 word list"

record D3DVIEWPORT7 =
  dwX :: "32 word"
  dwY :: "32 word"
  dwWidth :: "32 word"
  dwHeight :: "32 word"
  dvMinZ :: "32 word"
  dvMaxZ :: "32 word"

datatype D3DTRANSFORMSTATETYPE =
  D3DTRANSFORMSTATE_WORLD | D3DTRANSFORMSTATE_VIEW | D3DTRANSFORMSTATE_PROJECTION

datatype D3DRENDERSTATETYPE =
  D3DRENDERSTATE_ALPHABLENDENABLE | D3DRENDERSTATE_SRCBLEND | D3DRENDERSTATE_DESTBLEND
  | D3DRENDERSTATE_ZENABLE | D3DRENDERSTATE_ZWRITEENABLE | D3DRENDERSTATE_CULLMODE
  | D3DRENDERSTATE_LIGHTING | D3DRENDERSTATE_SHADEMODE | D3DRENDERSTATE_FOGENABLE
  | D3DRENDERSTATE_CLIPPING

datatype D3DTEXTURESTAGESTATETYPE =
  D3DTSS_COLOROP | D3DTSS_COLORARG1 | D3DTSS_COLORARG2
  | D3DTSS_ALPHAOP | D3DTSS_ALPHAARG1 | D3DTSS_ALPHAARG2
  | D3DTSS_MINFILTER | D3DTSS_MAGFILTER | D3DTSS_MIPFILTER
  | D3DTSS_ADDRESSU | D3DTSS_ADDRESSV

datatype slot =
  Transform D3DTRANSFORMSTATETYPE
  | RenderState D3DRENDERSTATETYPE
  | Texture nat
  | TextureStageState nat D3DTEXTURESTAGESTATETYPE
  | Viewport

datatype call =
  Get slot
  | Set slot
  | Release surface
  | UserCall nat
  | DrawIndexedPrimitive "ClippedVert list" "16 word list"

record device =
  dev_transform :: "D3DTRANSFORMSTATETYPE \<Rightarrow> D3DMATRIX"
  dev_render_state :: "D3DRENDERSTATETYPE \<Rightarrow> 32 word"
  dev_texture :: "nat \<Rightarrow> surface option"
  dev_tss :: "nat \<Rightarrow> D3DTEXTURESTAGESTATETYPE \<Rightarrow> 32 word"
  dev_viewport :: D3DVIEWPORT7
  refcount :: "surface \<Rightarrow> nat"
  calls :: "call list"

definition AddRef :: "surface option \<Rightarrow> (surface \<Rightarrow> nat) \<Rightarrow> (surface \<Rightarrow> nat)" where
  "AddRef p rc = (case p of None \<Rightarrow> rc | Some s \<Rightarrow> rc(s := rc s + 1))"

definition DropRef :: "surface option \<Rightarrow> (surface \<Rightarrow> nat) \<Rightarrow> (surface \<Rightarrow> nat)" where
  "DropRef p rc = (case p of None \<Rightarrow> rc | Some s \<Rightarrow> rc(s := rc s - 1))"

definition GetTransform :: "D3DTRANSFORMSTATETYPE \<Rightarrow> device \<Rightarrow> D3DMATRIX \<times> device" where
  "GetTransform t d = (dev_transform d t, d\<lparr>calls := calls d @ [Get (Transform t)]\<rparr>)"

definition SetTransform :: "D3DTRANSFORMSTATETYPE \<Rightarrow> D3DMATRIX \<Rightarrow> device \<Rightarrow> device" where
  "SetTransform t m d =
     d\<lparr>dev_transform := (dev_transform d)(t := m), calls := calls d @ [Set (Transform t)]\<rparr>"

definition GetRenderState :: "D3DRENDERSTATETYPE \<Rightarrow> device \<Rightarrow> 32 word \<times> device" where
  "GetRenderState s d = (dev_render_state d s, d\<lparr>calls := calls d @ [Get (RenderState s)]\<rparr>)"

definition SetRenderState :: "D3DRENDERSTATETYPE \<Rightarrow> 32 word \<Rightarrow> device \<Rightarrow> device" where
  "SetRenderState s v d =
     d\<lparr>dev_render_state := (dev_render_state d)(s := v), calls := calls d @ [Set (RenderState s)]\<rparr>"

definition GetTexture :: "nat \<Rightarrow> device \<Rightarrow> surface option \<times> device" where
  "GetTexture stage d =
     (dev_texture d stage,
      d\<lparr>refcount := AddRef (dev_texture d stage) (refcount d),
        calls := calls d @ [Get (Texture stage)]\<rparr>)"

definition SetTexture :: "nat \<Rightarrow> surface option \<Rightarrow> device \<Rightarrow> device" where
  "SetTexture stage tex d =
     d\<lparr>dev_texture := (dev_texture d)(stage := tex),
       refcount := DropRef (dev_texture d stage) (AddRef tex (refcount d)),
       calls := calls d @ [Set (Texture stage)]\<rparr>"

definition GetTextureStageState ::
  "nat \<Rightarrow> D3DTEXTURESTAGESTATETYPE \<Rightarrow> device \<Rightarrow> 32 word \<times> device" where
  "GetTextureStageState stage s d =
     (dev_tss d stage s, d\<lparr>calls := calls d @ [Get (TextureStageState stage s)]\<rparr>)"

definition SetTextureStageState ::
  "nat \<Rightarrow> D3DTEXTURESTAGESTATETYPE \<Rightarrow> 32 word \<Rightarrow> device \<Rightarrow> device" where
  "SetTextureStageState stage s v d =
     d\<lparr>dev_tss := (dev_tss d)(stage := (dev_tss d stage)(s := v)),
       calls := calls d @ [Set (TextureStageState stage s)]\<rparr>"

definition GetViewport :: "device \<Rightarrow> D3DVIEWPORT7 \<times> device" where
  "GetViewport d = (dev_viewport d, d\<lparr>calls := calls d @ [Get Viewport]\<rparr>)"

definition SetViewport :: "D3DVIEWPORT7 \<Rightarrow> device \<Rightarrow> device" where
  "SetViewport vp d = d\<lparr>dev_viewport := vp, calls := calls d @ [Set Viewport]\<rparr>"

text \<open>\<^verbatim>\<open>surface->Release()\<close>.\<close>

definition SurfaceRelease :: "surface \<Rightarrow> device \<Rightarrow> device" where
  "SurfaceRelease s d =
     d\<lparr>refcount := DropRef (Some s) (refcount d), calls := calls d @ [Release s]\<rparr>"

subsection \<open>\<^verbatim>\<open>ImGui_ImplDX7_StateBackup\<close>\<close>

record ImGui_ImplDX7_StateBackup =
  world :: D3DMATRIX
  view :: D3DMATRIX
  proj :: D3DMATRIX
  rs_alpha_blend :: "32 word"
  rs_src_blend :: "32 word"
  rs_dst_blend :: "32 word"
  rs_zenable :: "32 word"
  rs_zwrite :: "32 word"
  rs_cullmode :: "32 word"
  rs_lighting :: "32 word"
  rs_shade :: "32 word"
  rs_fog :: "32 word"
  rs_clipping :: "32 word"
  tex0 :: "surface option"
  tss0_colorop :: "32 word"
  tss0_colorarg1 :: "32 word"
  tss0_colorarg2 :: "32 word"
  tss0_alphaop :: "32 word"
  tss0_alphaarg1 :: "32 word"
  tss0_alphaarg2 :: "32 word"
  tss1_colorop :: "32 word"
  tss1_alphaop :: "32 word"
  viewport :: D3DVIEWPORT7

text \<open>\<^verbatim>\<open>Capture\<close> fills every field of the backup, in this order, and returns it.\<close>

definition Capture :: "device \<Rightarrow> ImGui_ImplDX7_StateBackup \<times> device" where
  "Capture d0 =
     (let (b_world, d) = GetTransform D3DTRANSFORMSTATE_WORLD d0;
          (b_view, d) = GetTransform D3DTRANSFORMSTATE_VIEW d;
          (b_proj, d) = GetTransform D3DTRANSFORMSTATE_PROJECTION d;
          (b_alpha_blend, d) = GetRenderState D3DRENDERSTATE_ALPHABLENDENABLE d;
          (b_src_blend, d) = GetRenderState D3DRENDERSTATE_SRCBLEND d;
          (b_dst_blend, d) = GetRenderState D3DRENDERSTATE_DESTBLEND d;
          (b_zenable, d) = GetRenderState D3DRENDERSTATE_ZENABLE d;
          (b_zwrite, d) = GetRenderState D3DRENDERSTATE_ZWRITEENABLE d;
          (b_cullmode, d) = GetRenderState D3DRENDERSTATE_CULLMODE d;
          (b_lighting, d) = GetRenderState D3DRENDERSTATE_LIGHTING d;
          (b_shade, d) = GetRenderState D3DRENDERSTATE_SHADEMODE d;
          (b_fog, d) = GetRenderState D3DRENDERSTATE_FOGENABLE d;
          (b_clipping, d) = GetRenderState D3DRENDERSTATE_CLIPPING d;
          (b_tex0, d) = GetTexture 0 d;
          (b0_colorop, d) = GetTextureStageState 0 D3DTSS_COLOROP d;
          (b0_colorarg1, d) = GetTextureStageState 0 D3DTSS_COLORARG1 d;
          (b0_colorarg2, d) = GetTextureStageState 0 D3DTSS_COLORARG2 d;
          (b0_alphaop, d) = GetTextureStageState 0 D3DTSS_ALPHAOP d;
          (b0_alphaarg1, d) = GetTextureStageState 0 D3DTSS_ALPHAARG1 d;
          (b0_alphaarg2, d) = GetTextureStageState 0 D3DTSS_ALPHAARG2 d;
          (b1_colorop, d) = GetTextureStageState 1 D3DTSS_COLOROP d;
          (b1_alphaop, d) = GetTextureStageState 1 D3DTSS_ALPHAOP d;
          (b_viewport, d) = GetViewport d
      in (\<lparr>world = b_world, view = b_view, proj = b_proj,
            rs_alpha_blend = b_alpha_blend, rs_src_blend = b_src_blend,
            rs_dst_blend = b_dst_blend, rs_zenable = b_zenable, rs_zwrite = b_zwrite,
            rs_cullmode = b_cullmode, rs_lighting = b_lighting, rs_shade = b_shade,
            rs_fog = b_fog, rs_clipping = b_clipping, tex0 = b_tex0,
            tss0_colorop = b0_colorop, tss0_colorarg1 = b0_colorarg1,
            tss0_colorarg2 = b0_colorarg2, tss0_alphaop = b0_alphaop,
            tss0_alphaarg1 = b0_alphaarg1, tss0_alphaarg2 = b0_alphaarg2,
            tss1_colorop = b1_colorop, tss1_alphaop = b1_alphaop,
            viewport = b_viewport\<rparr>, d))"

definition Restore :: "ImGui_ImplDX7_StateBackup \<Rightarrow> device \<Rightarrow> device" where
  "Restore b d0 =
     (let d = SetTransform D3DTRANSFORMSTATE_WORLD (world b) d0;
          d = SetTransform D3DTRANSFORMSTATE_VIEW (view b) d;
          d = SetTransform D3DTRANSFORMSTATE_PROJECTION (proj b) d;
          d = SetRenderState D3DRENDERSTATE_ALPHABLENDENABLE (rs_alpha_blend b) d;
          d = SetRenderState D3DRENDERSTATE_SRCBLEND (rs_src_blend b) d;
          d = SetRenderState D3DRENDERSTATE_DESTBLEND (rs_dst_blend b) d;
          d = SetRenderState D3DRENDERSTATE_ZENABLE (rs_zenable b) d;
          d = SetRenderState D3DRENDERSTATE_ZWRITEENABLE (rs_zwrite b) d;
          d = SetRenderState D3DRENDERSTATE_CULLMODE (rs_cullmode b) d;
          d = SetRenderState D3DRENDERSTATE_LIGHTING (rs_lighting b) d;
          d = SetRenderState D3DRENDERSTATE_SHADEMODE (rs_shade b) d;
          d = SetRenderState D3DRENDERSTATE_FOGENABLE (rs_fog b) d;
          d = SetRenderState D3DRENDERSTATE_CLIPPING (rs_clipping b) d;
          d = SetTexture 0 (tex0 b) d;
          d = (case tex0 b of None \<Rightarrow> d | Some s \<Rightarrow> SurfaceRelease s d);
          d = SetTextureStageState 0 D3DTSS_COLOROP (tss0_colorop b) d;
          d = SetTextureStageState 0 D3DTSS_COLORARG1 (tss0_colorarg1 b) d;
          d = SetTextureStageState 0 D3DTSS_COLORARG2 (tss0_colorarg2 b) d;
          d = SetTextureStageState 0 D3DTSS_ALPHAOP (tss0_alphaop b) d;
          d = SetTextureStageState 0 D3DTSS_ALPHAARG1 (tss0_alphaarg1 b) d;
          d = SetTextureStageState 0 D3DTSS_ALPHAARG2 (tss0_alphaarg2 b) d;
          d = SetTextureStageState 1 D3DTSS_COLOROP (tss1_colorop b) d;
          d = SetTextureStageState 1 D3DTSS_ALPHAOP (tss1_alphaop b) d
      in SetViewport (viewport b) d)"



subsection \<open>Common render state\<close>

text \<open>
  The named constants of the DirectX 7 header \<^verbatim>\<open>d3dtypes.h\<close>, which is not part of the
  repository. Their values are those of the SDK; no statement below depends on them.
\<close>

definition D3DCULL_NONE :: "32 word" where "D3DCULL_NONE = 1"
definition D3DBLEND_SRCALPHA :: "32 word" where "D3DBLEND_SRCALPHA = 5"
definition D3DBLEND_INVSRCALPHA :: "32 word" where "D3DBLEND_INVSRCALPHA = 6"
definition D3DSHADE_GOURAUD :: "32 word" where "D3DSHADE_GOURAUD = 2"
definition D3DTOP_DISABLE :: "32 word" where "D3DTOP_DISABLE = 1"
definition D3DTOP_MODULATE :: "32 word" where "D3DTOP_MODULATE = 4"
definition D3DTA_DIFFUSE :: "32 word" where "D3DTA_DIFFUSE = 0"
definition D3DTA_TEXTURE :: "32 word" where "D3DTA_TEXTURE = 2"
definition D3DTFN_LINEAR :: "32 word" where "D3DTFN_LINEAR = 2"
definition D3DTFG_LINEAR :: "32 word" where "D3DTFG_LINEAR = 2"
definition D3DTFP_POINT :: "32 word" where "D3DTFP_POINT = 2"
definition D3DTADDRESS_CLAMP :: "32 word" where "D3DTADDRESS_CLAMP = 3"

text \<open>The identity matrix \<^verbatim>\<open>I\<close>: sixteen floats, as bit patterns (\<open>1.0f\<close> is \<open>0x3F800000\<close>).\<close>

definition identity_matrix :: D3DMATRIX where
  "identity_matrix =
     [0x3F800000, 0, 0, 0,  0, 0x3F800000, 0, 0,  0, 0, 0x3F800000, 0,  0, 0, 0, 0x3F800000]"

definition ImGui_ImplDX7_SetupRenderState :: "device \<Rightarrow> device" where
  "ImGui_ImplDX7_SetupRenderState d0 =
     (let d = SetRenderState D3DRENDERSTATE_ZENABLE 0 d0;
          d = SetRenderState D3DRENDERSTATE_ZWRITEENABLE 0 d;
          d = SetRenderState D3DRENDERSTATE_CULLMODE D3DCULL_NONE d;
          d = SetRenderState D3DRENDERSTATE_ALPHABLENDENABLE 1 d;
          d = SetRenderState D3DRENDERSTATE_SRCBLEND D3DBLEND_SRCALPHA d;
          d = SetRenderState D3DRENDERSTATE_DESTBLEND D3DBLEND_INVSRCALPHA d;
          d = SetRenderState D3DRENDERSTATE_LIGHTING 0 d;
          d = SetRenderState D3DRENDERSTATE_SHADEMODE D3DSHADE_GOURAUD d;
          d = SetRenderState D3DRENDERSTATE_FOGENABLE 0 d;
          d = SetRenderState D3DRENDERSTATE_CLIPPING 1 d;
          d = SetTextureStageState 0 D3DTSS_COLOROP D3DTOP_MODULATE d;
          d = SetTextureStageState 0 D3DTSS_COLORARG1 D3DTA_TEXTURE d;
          d = SetTextureStageState 0 D3DTSS_COLORARG2 D3DTA_DIFFUSE d;
          d = SetTextureStageState 0 D3DTSS_ALPHAOP D3DTOP_MODULATE d;
          d = SetTextureStageState 0 D3DTSS_ALPHAARG1 D3DTA_TEXTURE d;
          d = SetTextureStageState 0 D3DTSS_ALPHAARG2 D3DTA_DIFFUSE d;
          d = SetTextureStageState 1 D3DTSS_COLOROP D3DTOP_DISABLE d;
          d = SetTextureStageState 1 D3DTSS_ALPHAOP D3DTOP_DISABLE d;
          d = SetTextureStageState 0 D3DTSS_MINFILTER D3DTFN_LINEAR d;
          d = SetTextureStageState 0 D3DTSS_MAGFILTER D3DTFG_LINEAR d;
          d = SetTextureStageState 0 D3DTSS_MIPFILTER D3DTFP_POINT d;
          d = SetTextureStageState 0 D3DTSS_ADDRESSU D3DTADDRESS_CLAMP d;
          d = SetTextureStageState 0 D3DTSS_ADDRESSV D3DTADDRESS_CLAMP d;
          d = SetTransform D3DTRANSFORMSTATE_WORLD identity_matrix d;
          d = SetTransform D3DTRANSFORMSTATE_VIEW identity_matrix d
      in SetTransform D3DTRANSFORMSTATE_PROJECTION identity_matrix d)"

subsection \<open>Font texture\<close>

text \<open>
  \<^verbatim>\<open>ImGui_ImplDX7_RgbaToBgra\<close> (and the macro \<^verbatim>\<open>IMGUI_COL_TO_DX_ARGB\<close>, which has the same
  body), in the default configuration where \<^verbatim>\<open>IMGUI_USE_BGRA_PACKED_COLOR\<close> is not
  defined.
\<close>

definition ImGui_ImplDX7_RgbaToBgra :: "32 word \<Rightarrow> 32 word" where
  "ImGui_ImplDX7_RgbaToBgra rgba =
     ((rgba AND 0xFF00FF00) OR drop_bit 16 (rgba AND 0x00FF0000) OR push_bit 16 (rgba AND 0x000000FF))"

definition IMGUI_COL_TO_DX_ARGB :: "32 word \<Rightarrow> 32 word" where
  "IMGUI_COL_TO_DX_ARGB c =
     ((c AND 0xFF00FF00) OR drop_bit 16 (c AND 0x00FF0000) OR push_bit 16 (c AND 0x000000FF))"

text \<open>
  DirectDraw is external as well. A surface that \<^verbatim>\<open>CreateSurface\<close> returned is alive, with
  its own reference count, until the count drops to zero. Whether a call of
  \<^verbatim>\<open>CreateSurface\<close> or \<^verbatim>\<open>Lock\<close> succeeds is decided outside the program: the outcomes are
  inputs (\<open>ddraw_outcome\<close>), as is the pitch the lock reports (in pixels). A failed
  \<^verbatim>\<open>CreateSurface\<close> leaves the pointer it was given unchanged.
\<close>

datatype memory_class = DDSCAPS_VIDEOMEMORY | DDSCAPS_SYSTEMMEMORY

record DDSurface =
  surf_width :: nat
  surf_height :: nat
  surf_memory :: memory_class
  surf_refs :: nat
  surf_rows :: "32 word list list"

record ddraw_outcome =
  vram_ok :: bool
  sysmem_ok :: bool
  lock_ok :: bool
  lock_pitch :: nat

text \<open>
  The state the font functions touch: whether \<^verbatim>\<open>bd\<close> and \<^verbatim>\<open>bd->ddraw\<close> are non-null, the
  global \<^verbatim>\<open>g_FontTexture\<close>, the texture identifier published to \<^verbatim>\<open>io.Fonts\<close>, and the
  surfaces DirectDraw holds.
\<close>

record font_state =
  have_ddraw :: bool
  g_FontTexture :: "surface option"
  Fonts_TexID :: "surface option"
  surfaces :: "surface \<Rightarrow> DDSurface option"
  next_surface :: surface

text \<open>\<^verbatim>\<open>bd->ddraw->CreateSurface(&desc, &g_FontTexture, nullptr)\<close>\<close>

definition CreateSurface :: "bool \<Rightarrow> nat \<Rightarrow> nat \<Rightarrow> memory_class \<Rightarrow> nat \<Rightarrow> font_state \<Rightarrow> bool \<times> font_state" where
  "CreateSurface ok w h mc pitch st =
     (if ok then
        (True, st\<lparr>g_FontTexture := Some (next_surface st),
                  surfaces := (surfaces st)(next_surface st \<mapsto>
                     \<lparr>surf_width = w, surf_height = h, surf_memory = mc, surf_refs = 1,
                      surf_rows = replicate h (replicate pitch 0)\<rparr>),
                  next_surface := next_surface st + 1\<rparr>)
      else (False, st))"

text \<open>\<^verbatim>\<open>IDirectDrawSurface7::Release\<close>: the surface is freed when its last reference goes.\<close>

definition ReleaseSurface :: "surface \<Rightarrow> font_state \<Rightarrow> font_state" where
  "ReleaseSurface s st =
     (case surfaces st s of
        None \<Rightarrow> st
      | Some sf \<Rightarrow>
          if surf_refs sf \<le> 1 then st\<lparr>surfaces := (surfaces st)(s := None)\<rparr>
          else st\<lparr>surfaces := (surfaces st)(s \<mapsto> sf\<lparr>surf_refs := surf_refs sf - 1\<rparr>)\<rparr>)"

text \<open>
  The copy loop of \<^verbatim>\<open>ImGui_ImplDX7_CreateFontsTexture\<close>: row \<open>y\<close> of the destination
  receives the \<open>w\<close> converted pixels \<open>src[y * w .. y * w + w - 1]\<close>; what lies beyond
  them in the row (the pitch may exceed the width) is left as it was.
\<close>

definition copy_pixels :: "nat \<Rightarrow> nat \<Rightarrow> 32 word list \<Rightarrow> 32 word list list \<Rightarrow> 32 word list list" where
  "copy_pixels w h src rows =
     map (\<lambda>y. map ImGui_ImplDX7_RgbaToBgra (take w (drop (y * w) src)) @ drop w (rows ! y)) [0 ..< h]"

definition ImGui_ImplDX7_CreateFontsTexture ::
  "ddraw_outcome \<Rightarrow> 32 word list \<Rightarrow> nat \<Rightarrow> nat \<Rightarrow> font_state \<Rightarrow> bool \<times> font_state" where
  "ImGui_ImplDX7_CreateFontsTexture env pixels w h st0 =
     (if \<not> have_ddraw st0 then (False, st0)
      else
        (let (ok1, st1) = CreateSurface (vram_ok env) w h DDSCAPS_VIDEOMEMORY (lock_pitch env) st0;
             (ok2, st2) = (if ok1 then (True, st1)
                           else CreateSurface (sysmem_ok env) w h DDSCAPS_SYSTEMMEMORY (lock_pitch env) st1)
         in if \<not> ok2 then (False, st2)
            else (case g_FontTexture st2 of
                    None \<Rightarrow> (False, st2)
                  | Some s \<Rightarrow>
                      if \<not> lock_ok env then
                        (False, (ReleaseSurface s st2)\<lparr>g_FontTexture := None\<rparr>)
                      else
                        (True,
                         st2\<lparr>surfaces := (case surfaces st2 s of
                                 None \<Rightarrow> surfaces st2
                               | Some sf \<Rightarrow> (surfaces st2)(s \<mapsto>
                                   sf\<lparr>surf_rows := copy_pixels w h pixels (surf_rows sf)\<rparr>)),
                             Fonts_TexID := Some s\<rparr>))))"

definition ImGui_ImplDX7_DestroyFontsTexture :: "font_state \<Rightarrow> font_state" where
  "ImGui_ImplDX7_DestroyFontsTexture st0 =
     (let st = st0\<lparr>Fonts_TexID := None\<rparr> in
      case g_FontTexture st of
        None \<Rightarrow> st
      | Some s \<Rightarrow> (ReleaseSurface s st)\<lparr>g_FontTexture := None\<rparr>)"

definition ImGui_ImplDX7_CreateDeviceObjects ::
  "ddraw_outcome \<Rightarrow> 32 word list \<Rightarrow> nat \<Rightarrow> nat \<Rightarrow> font_state \<Rightarrow> bool \<times> font_state" where
  "ImGui_ImplDX7_CreateDeviceObjects = ImGui_ImplDX7_CreateFontsTexture"

definition ImGui_ImplDX7_InvalidateDeviceObjects :: "font_state \<Rightarrow> font_state" where
  "ImGui_ImplDX7_InvalidateDeviceObjects = ImGui_ImplDX7_DestroyFontsTexture"



subsection \<open>Draw data\<close>

text \<open>
  The draw data of Dear ImGui, as far as the backend reads it. A texture identifier is a
  surface pointer (possibly null); a user callback is either the sentinel
  \<^verbatim>\<open>ImDrawCallback_ResetRenderState\<close> or a function of the application, named by a
  number.
\<close>

record ImVec2 =
  v2_x :: real
  v2_y :: real

record ImDrawVert =
  vert_pos :: ImVec2
  vert_uv :: ImVec2
  vert_col :: "32 word"

datatype ImDrawCallback = ImDrawCallback_ResetRenderState | UserFunction nat

record ImDrawCmd =
  ClipRect :: ImVec4
  TexID :: "surface option"
  VtxOffset :: nat
  IdxOffset :: nat
  ElemCount :: nat
  UserCallback :: "ImDrawCallback option"

record ImDrawList =
  CmdBuffer :: "ImDrawCmd list"
  IdxBuffer :: "16 word list"
  VtxBuffer :: "ImDrawVert list"

record ImDrawData =
  CmdLists :: "ImDrawList list"
  DisplayPos :: ImVec2
  DisplaySize :: ImVec2
  FramebufferScale :: ImVec2

text \<open>\<^verbatim>\<open>struct IMGUI_DX7_CUSTOMVERTEX { float x, y, z, rhw; D3DCOLOR col; float u, v; }\<close>\<close>

record IMGUI_DX7_CUSTOMVERTEX =
  dx7_x :: real
  dx7_y :: real
  dx7_z :: real
  dx7_rhw :: real
  dx7_col :: "32 word"
  dx7_u :: real
  dx7_v :: real

subsection \<open>\<^verbatim>\<open>ImGui_ImplDX7_RenderDrawData\<close>\<close>

text \<open>
  The body of the vertex conversion loop: one \<^verbatim>\<open>ImDrawVert\<close> to one device vertex, with
  \<^verbatim>\<open>clip_off = DisplayPos\<close> and \<^verbatim>\<open>clip_scale = FramebufferScale\<close>.
\<close>

definition convert_vertex :: "ImVec2 \<Rightarrow> ImVec2 \<Rightarrow> ImDrawVert \<Rightarrow> IMGUI_DX7_CUSTOMVERTEX" where
  "convert_vertex clip_off clip_scale src =
     \<lparr>dx7_x = (v2_x (vert_pos src) - v2_x clip_off) * v2_x clip_scale,
      dx7_y = (v2_y (vert_pos src) - v2_y clip_off) * v2_y clip_scale,
      dx7_z = 0,
      dx7_rhw = 1,
      dx7_col = IMGUI_COL_TO_DX_ARGB (vert_col src),
      dx7_u = v2_x (vert_uv src),
      dx7_v = v2_y (vert_uv src)\<rparr>"

text \<open>
  The contiguous buffers \<^verbatim>\<open>vbuf\<close> and \<^verbatim>\<open>ibuf\<close> after the first loop over the draw lists.
  (They are sized by \<^verbatim>\<open>TotalVtxCount\<close> and \<^verbatim>\<open>TotalIdxCount\<close>, which Dear ImGui keeps equal
  to the sums of the list sizes.)
\<close>

definition build_vbuf :: "ImDrawData \<Rightarrow> IMGUI_DX7_CUSTOMVERTEX list" where
  "build_vbuf draw_data =
     concat (map (\<lambda>dl. map (convert_vertex (DisplayPos draw_data) (FramebufferScale draw_data))
                             (VtxBuffer dl))
                 (CmdLists draw_data))"

definition build_ibuf :: "ImDrawData \<Rightarrow> 16 word list" where
  "build_ibuf draw_data = concat (map IdxBuffer (CmdLists draw_data))"

text \<open>The lambda \<^verbatim>\<open>toCV\<close>.\<close>

definition toCV :: "IMGUI_DX7_CUSTOMVERTEX \<Rightarrow> ClippedVert" where
  "toCV s = \<lparr>cv_x = dx7_x s, cv_y = dx7_y s, cv_z = dx7_z s, cv_rhw = dx7_rhw s,
             cv_col = dx7_col s, cv_u = dx7_u s, cv_v = dx7_v s\<rparr>"

text \<open>
  Lines 588 to 591: the clip rectangle of a command in framebuffer space, as
  \<open>(cr_min.x, cr_min.y, cr_max.x, cr_max.y)\<close>.
\<close>

definition clip_rect_fb :: "ImVec2 \<Rightarrow> ImVec2 \<Rightarrow> ImDrawCmd \<Rightarrow> ImVec4" where
  "clip_rect_fb clip_off clip_scale pcmd =
     \<lparr>v4_x = (v4_x (ClipRect pcmd) - v2_x clip_off) * v2_x clip_scale,
      v4_y = (v4_y (ClipRect pcmd) - v2_y clip_off) * v2_y clip_scale,
      v4_z = (v4_z (ClipRect pcmd) - v2_x clip_off) * v2_x clip_scale,
      v4_w = (v4_w (ClipRect pcmd) - v2_y clip_off) * v2_y clip_scale\<rparr>"

text \<open>
  Lines 593 to 603 and 613: the two coarse rejections (\<open>None\<close> stands for \<^verbatim>\<open>continue\<close>),
  then the clamp to the framebuffer, giving the rectangle \<open>R\<close> handed to the clipper.
\<close>

definition clamp_clip_rect :: "int \<Rightarrow> int \<Rightarrow> ImVec4 \<Rightarrow> ImVec4 option" where
  "clamp_clip_rect fb_width fb_height cr =
     (if v4_z cr \<le> v4_x cr \<or> v4_w cr \<le> v4_y cr then None
      else if v4_z cr < 0 \<or> v4_w cr < 0 \<or> v4_x cr > of_int fb_width \<or> v4_y cr > of_int fb_height
           then None
      else Some \<lparr>v4_x = (if v4_x cr < 0 then 0 else v4_x cr),
                 v4_y = (if v4_y cr < 0 then 0 else v4_y cr),
                 v4_z = (if v4_z cr > of_int fb_width then of_int fb_width else v4_z cr),
                 v4_w = (if v4_w cr > of_int fb_height then of_int fb_height else v4_w cr)\<rparr>)"

text \<open>
  A read \<open>xs[i]\<close> of a buffer. Outside the buffer the behaviour of the source is
  undefined; the model stops with \<open>None\<close> there.
\<close>

definition read_at :: "'a list \<Rightarrow> nat \<Rightarrow> 'a option" where
  "read_at xs i = (if i < length xs then Some (xs ! i) else None)"

text \<open>
  The triangle loop \<^verbatim>\<open>for (unsigned t = 0; t < pcmd->ElemCount; t += 3)\<close>, where
  \<^verbatim>\<open>vstart = vbuf.Data + voff\<close> and \<^verbatim>\<open>istart = ibuf.Data + ioff\<close>.
\<close>

function clip_triangles ::
  "IMGUI_DX7_CUSTOMVERTEX list \<Rightarrow> 16 word list \<Rightarrow> nat \<Rightarrow> nat \<Rightarrow> ImVec4 \<Rightarrow> nat \<Rightarrow> nat \<Rightarrow>
   ClippedVert list \<times> 16 word list \<Rightarrow> (ClippedVert list \<times> 16 word list) option" where
  "clip_triangles vbuf ibuf voff ioff R n t out =
     (if t < n then
        (case (read_at ibuf (ioff + t), read_at ibuf (ioff + t + 1), read_at ibuf (ioff + t + 2)) of
           (Some i0, Some i1, Some i2) \<Rightarrow>
             (case (read_at vbuf (voff + unat i0), read_at vbuf (voff + unat i1),
                    read_at vbuf (voff + unat i2)) of
                (Some A, Some B, Some C) \<Rightarrow>
                  clip_triangles vbuf ibuf voff ioff R n (t + 3)
                    (EmitClippedTri (toCV A) (toCV B) (toCV C) R out)
              | _ \<Rightarrow> None)
         | _ \<Rightarrow> None)
      else Some out)"
  by pat_completeness auto
termination
  by (relation "measure (\<lambda>(vbuf, ibuf, voff, ioff, R, n, t, out). n - t)") auto

text \<open>What the render loop needs besides the device.\<close>

record render_ctx =
  ctx_vbuf :: "IMGUI_DX7_CUSTOMVERTEX list"
  ctx_ibuf :: "16 word list"
  ctx_clip_off :: ImVec2
  ctx_clip_scale :: ImVec2
  ctx_fb_width :: int
  ctx_fb_height :: int
  ctx_backup_viewport :: D3DVIEWPORT7
  ctx_user :: "nat \<Rightarrow> device \<Rightarrow> device"

datatype render_error = OutOfBounds

text \<open>\<^verbatim>\<open>d3d->DrawIndexedPrimitive(D3DPT_TRIANGLELIST, IMGUI_DX7_FVF, cv, |cv|, ci, |ci|, 0)\<close>\<close>

definition DrawIndexedPrimitiveCall :: "ClippedVert list \<Rightarrow> 16 word list \<Rightarrow> device \<Rightarrow> device" where
  "DrawIndexedPrimitiveCall cv ci d = d\<lparr>calls := calls d @ [DrawIndexedPrimitive cv ci]\<rparr>"

text \<open>
  The body of the loop over the commands of a draw list, for one command;
  \<open>gvo\<close> and \<open>gio\<close> are \<^verbatim>\<open>global_vtx_offset\<close> and \<^verbatim>\<open>global_idx_offset\<close>.
\<close>

definition render_cmd :: "render_ctx \<Rightarrow> nat \<Rightarrow> nat \<Rightarrow> ImDrawCmd \<Rightarrow> device \<Rightarrow> render_error + device" where
  "render_cmd ctx gvo gio pcmd d =
     (case UserCallback pcmd of
        Some ImDrawCallback_ResetRenderState \<Rightarrow> Inr (ImGui_ImplDX7_SetupRenderState d)
      | Some (UserFunction f) \<Rightarrow>
          Inr (SetViewport (ctx_backup_viewport ctx)
                 (ImGui_ImplDX7_SetupRenderState
                    (ctx_user ctx f (d\<lparr>calls := calls d @ [UserCall f]\<rparr>))))
      | None \<Rightarrow>
          (case clamp_clip_rect (ctx_fb_width ctx) (ctx_fb_height ctx)
                  (clip_rect_fb (ctx_clip_off ctx) (ctx_clip_scale ctx) pcmd) of
             None \<Rightarrow> Inr d
           | Some R \<Rightarrow>
               (let d1 = SetTexture 0 (TexID pcmd) d in
                case clip_triangles (ctx_vbuf ctx) (ctx_ibuf ctx) (VtxOffset pcmd + gvo)
                       (IdxOffset pcmd + gio) R (ElemCount pcmd) 0 ([], []) of
                  None \<Rightarrow> Inl OutOfBounds
                | Some (cv, ci) \<Rightarrow>
                    Inr (if ci \<noteq> [] then DrawIndexedPrimitiveCall cv ci d1 else d1))))"

fun render_cmds :: "render_ctx \<Rightarrow> nat \<Rightarrow> nat \<Rightarrow> ImDrawCmd list \<Rightarrow> device \<Rightarrow> render_error + device" where
  "render_cmds ctx gvo gio [] d = Inr d"
| "render_cmds ctx gvo gio (pcmd # rest) d =
     (case render_cmd ctx gvo gio pcmd d of
        Inl e \<Rightarrow> Inl e
      | Inr d' \<Rightarrow> render_cmds ctx gvo gio rest d')"

fun render_lists :: "render_ctx \<Rightarrow> nat \<Rightarrow> nat \<Rightarrow> ImDrawList list \<Rightarrow> device \<Rightarrow> render_error + device" where
  "render_lists ctx gvo gio [] d = Inr d"
| "render_lists ctx gvo gio (dl # rest) d =
     (case render_cmds ctx gvo gio (CmdBuffer dl) d of
        Inl e \<Rightarrow> Inl e
      | Inr d' \<Rightarrow>
          render_lists ctx (gvo + length (VtxBuffer dl)) (gio + length (IdxBuffer dl)) rest d')"

definition ImGui_ImplDX7_RenderDrawData ::
  "(nat \<Rightarrow> device \<Rightarrow> device) \<Rightarrow> ImDrawData \<Rightarrow> device \<Rightarrow> render_error + device" where
  "ImGui_ImplDX7_RenderDrawData user draw_data d0 =
     (if v2_x (DisplaySize draw_data) \<le> 0 \<or> v2_y (DisplaySize draw_data) \<le> 0 then Inr d0
      else
        (let (backup, d1) = Capture d0;
             d2 = ImGui_ImplDX7_SetupRenderState d1;
             clip_off = DisplayPos draw_data;
             clip_scale = FramebufferScale draw_data;
             ctx = \<lparr>ctx_vbuf = build_vbuf draw_data,
                    ctx_ibuf = build_ibuf draw_data,
                    ctx_clip_off = clip_off,
                    ctx_clip_scale = clip_scale,
                    ctx_fb_width = float_to_int (v2_x (DisplaySize draw_data) * v2_x clip_scale),
                    ctx_fb_height = float_to_int (v2_y (DisplaySize draw_data) * v2_y clip_scale),
                    ctx_backup_viewport = viewport backup,
                    ctx_user = user\<rparr>
         in case render_lists ctx 0 0 (CmdLists draw_data) d2 of
              Inl e \<Rightarrow> Inl e
            | Inr d3 \<Rightarrow> Inr (Restore backup d3)))"

section \<open>Vocabulary of the statements\<close>

text \<open>
  The definitions of this section are not code of the backend. They name the notions the
  statements below use: the rectangle as a set of points, the coordinate a side clips, test
  data.
\<close>

text \<open>\<open>minX \<le> x \<le> maxX\<close> and \<open>minY \<le> y \<le> maxY\<close>.\<close>

definition InRect :: "ClippedVert \<Rightarrow> ImVec4 \<Rightarrow> bool" where
  "InRect p R = (v4_x R \<le> cv_x p \<and> cv_x p \<le> v4_z R \<and> v4_y R \<le> cv_y p \<and> cv_y p \<le> v4_w R)"



text \<open>\<open>z\<close> lies between \<open>a\<close> and \<open>b\<close>, in either order.\<close>

definition between :: "real \<Rightarrow> real \<Rightarrow> real \<Rightarrow> bool" where
  "between a b z = (min a b \<le> z \<and> z \<le> max a b)"







text \<open>The area of a polygon (shoelace formula).\<close>

definition poly_area :: "ClippedVert list \<Rightarrow> real" where
  "poly_area vs = \<bar>sum_list (map2 (\<lambda>p q. cv_x p * cv_y q - cv_x q * cv_y p) vs (rotate1 vs))\<bar> / 2"

text \<open>
  Test data: a vertex as the frame batcher produces it (depth 0, weight 1), opaque white,
  and a rectangle from its four bounds.
\<close>

definition test_vert :: "real \<Rightarrow> real \<Rightarrow> ClippedVert" where
  "test_vert px py = \<lparr>cv_x = px, cv_y = py, cv_z = 0, cv_rhw = 1, cv_col = 0xFFFFFFFF, cv_u = 0, cv_v = 0\<rparr>"

definition rect :: "real \<Rightarrow> real \<Rightarrow> real \<Rightarrow> real \<Rightarrow> ImVec4" where
  "rect x0 y0 x1 y1 = \<lparr>v4_x = x0, v4_y = y0, v4_z = x1, v4_w = y1\<rparr>"


text \<open>The state slots a sequence of device calls reads, and those it writes, in order.\<close>

definition read_slots :: "call list \<Rightarrow> slot list" where
  "read_slots cs = concat (map (\<lambda>c. case c of Get s \<Rightarrow> [s] | _ \<Rightarrow> []) cs)"

definition written_slots :: "call list \<Rightarrow> slot list" where
  "written_slots cs = concat (map (\<lambda>c. case c of Set s \<Rightarrow> [s] | _ \<Rightarrow> []) cs)"

text \<open>
  A command's clip rectangle in framebuffer space is rejected when it is empty
  (\<open>max \<le> min\<close> on an axis) or has no point in common with the framebuffer
  \<open>[0, fb_width] \<times> [0, fb_height]\<close>.
\<close>

definition rejected :: "int \<Rightarrow> int \<Rightarrow> ImVec4 \<Rightarrow> bool" where
  "rejected fb_width fb_height cr =
     (v4_z cr \<le> v4_x cr \<or> v4_w cr \<le> v4_y cr
      \<or> v4_z cr < 0 \<or> v4_w cr < 0 \<or> v4_x cr > of_int fb_width \<or> v4_y cr > of_int fb_height)"


text \<open>
  A device with a texture bound to stage 0, a backend state before any font upload, the
  outcome where every DirectDraw call succeeds, and a render context over one triangle.
\<close>

definition device0 :: device where
  "device0 = \<lparr>dev_transform = (\<lambda>_. identity_matrix), dev_render_state = (\<lambda>_. 7),
     dev_texture = (\<lambda>n. if n = 0 then Some 3 else None), dev_tss = (\<lambda>_ _. 1),
     dev_viewport = \<lparr>dwX = 0, dwY = 0, dwWidth = 640, dwHeight = 480, dvMinZ = 0, dvMaxZ = 0x3F800000\<rparr>,
     refcount = (\<lambda>s. if s = 3 then 2 else 0), calls = []\<rparr>"

definition font_state0 :: font_state where
  "font_state0 = \<lparr>have_ddraw = True, g_FontTexture = None, Fonts_TexID = None,
                   surfaces = (\<lambda>_. None), next_surface = 1\<rparr>"

definition outcome_ok :: ddraw_outcome where
  "outcome_ok = \<lparr>vram_ok = True, sysmem_ok = True, lock_ok = True, lock_pitch = 2\<rparr>"

definition test_ctx :: render_ctx where
  "test_ctx = \<lparr>ctx_vbuf = [\<lparr>dx7_x = 0, dx7_y = 0, dx7_z = 0, dx7_rhw = 1, dx7_col = 0xFFFFFFFF, dx7_u = 0, dx7_v = 0\<rparr>,
                           \<lparr>dx7_x = 30, dx7_y = 0, dx7_z = 0, dx7_rhw = 1, dx7_col = 0xFFFFFFFF, dx7_u = 0, dx7_v = 0\<rparr>,
                           \<lparr>dx7_x = 0, dx7_y = 30, dx7_z = 0, dx7_rhw = 1, dx7_col = 0xFFFFFFFF, dx7_u = 0, dx7_v = 0\<rparr>],
               ctx_ibuf = [0, 1, 2],
               ctx_clip_off = \<lparr>v2_x = 0, v2_y = 0\<rparr>,
               ctx_clip_scale = \<lparr>v2_x = 1, v2_y = 1\<rparr>,
               ctx_fb_width = 640, ctx_fb_height = 480,
               ctx_backup_viewport = dev_viewport device0,
               ctx_user = (\<lambda>f d. d)\<rparr>"

definition test_cmd :: "ImVec4 \<Rightarrow> ImDrawCmd" where
  "test_cmd r = \<lparr>ClipRect = r, TexID = Some 3, VtxOffset = 0, IdxOffset = 0, ElemCount = 3,
                 UserCallback = None\<rparr>"










section \<open>Properties\<close>

subsection \<open>The passes of the clipper\<close>

declare clip_loop.simps [simp del]

lemma clip_side_zip:
  "clip_side R side poly = concat (map2 (clip_edge R side) poly (rotate1 poly))"
proof -
  have "map (\<lambda>i. clip_edge R side (poly ! i) (poly ! ((i + 1) mod length poly))) [0 ..< length poly]
        = map2 (clip_edge R side) poly (rotate1 poly)"
    by (rule nth_equalityI) (simp_all add: nth_rotate1)
  then show ?thesis by (simp add: clip_side_def)
qed

lemma clip_side_Nil [simp]: "clip_side R side [] = []"
  by (simp add: clip_side_def)

lemma clip_side_tri:
  "clip_side R side [a, b, c] = clip_edge R side a b @ clip_edge R side b c @ clip_edge R side c a"
  by (simp add: clip_side_zip)

lemma clip_loop_unfold:
  "clip_loop R 0 poly = clip_side R 3 (clip_side R 2 (clip_side R 1 (clip_side R 0 poly)))"
proof -
  have e: "\<And>s. clip_loop R s [] = []" by (simp add: clip_loop.simps)
  have 4: "\<And>p. clip_loop R 4 p = p" by (simp add: clip_loop.simps)
  have 3: "\<And>p. clip_loop R 3 p = clip_side R 3 p"
    by (subst clip_loop.simps) (auto simp: 4)
  have 2: "\<And>p. clip_loop R 2 p = clip_side R 3 (clip_side R 2 p)"
    by (subst clip_loop.simps) (auto simp: 3)
  have 1: "\<And>p. clip_loop R 1 p = clip_side R 3 (clip_side R 2 (clip_side R 1 p))"
    by (subst clip_loop.simps) (auto simp: 2)
  show ?thesis
    by (subst clip_loop.simps) (auto simp: 1)
qed


subsection \<open>Intersection points lie between the endpoints\<close>

lemma between_left [simp]: "between a b a" and between_right [simp]: "between a b b"
  by (simp_all add: between_def)



lemma InterpolateRest_pos [simp]:
  "cv_x (InterpolateRest P Q x y t) = x" "cv_y (InterpolateRest P Q x y t) = y"
  by (simp_all add: InterpolateRest_def Let_def)















lemma InRect_sides: "InRect p R = (InsideBySide p R 0 \<and> InsideBySide p R 1 \<and> InsideBySide p R 2 \<and> InsideBySide p R 3)"
  by (auto simp: InRect_def InsideBySide_def)

lemmas clip_eval = clip_loop_unfold clip_side_zip clip_edge_def InsideBySide_def
  IntersectWithSide_def InterpolateRest_def EPS_def Let_def test_vert_def rect_def

subsection \<open>The emitted vertices and the rectangle\<close>


text \<open>
  No point of that triangle lies in the rectangle: a convex combination of its vertices
  with \<open>x \<ge> 0\<close> has \<open>y \<ge> 12.5\<close>.
\<close>

lemma sliver_disjoint_from_rect:
  fixes \<alpha> \<beta> \<gamma> :: real
  assumes "0 \<le> \<alpha>" "0 \<le> \<beta>" "0 \<le> \<gamma>" "\<alpha> + \<beta> + \<gamma> = 1"
  shows "\<not> (0 \<le> \<alpha> * (- (1 / 2097152)) + \<beta> * (1 / 2097152) + \<gamma> * (1 / 2097152)
          \<and> \<alpha> * 5 + \<beta> * 20 + \<gamma> * 30 \<le> 10)"
  using assms by simp




subsection \<open>The scenario of the specification\<close>

text \<open>
  Claim C2 as stated fails. The hypotenuse \<open>x + y = 30\<close> of the triangle passes through
  the corners \<open>(20, 10)\<close> and \<open>(10, 20)\<close> of the rectangle, so the intersection is a
  triangle, not a quadrilateral: the clipper emits three vertices, of area 50, and three
  indices (one triangle).
\<close>

theorem scenario_counterexample:
  "\<not> (length (fst (EmitClippedTri (test_vert 0 0) (test_vert 30 0) (test_vert 0 30) (rect 10 10 20 20) ([], []))) = 4
      \<and> poly_area (fst (EmitClippedTri (test_vert 0 0) (test_vert 30 0) (test_vert 0 30) (rect 10 10 20 20) ([], []))) = 100
      \<and> length (snd (EmitClippedTri (test_vert 0 0) (test_vert 30 0) (test_vert 0 30) (rect 10 10 20 20) ([], []))) = 3 * 2)"
  by (simp add: EmitClippedTri_def clip_eval)

text \<open>
  Claim C2, as amended. Clipping a triangle with vertices \<open>(0,0)\<close>, \<open>(30,0)\<close>, \<open>(0,30)\<close>
  (whatever its other attributes) against \<open>[10,10,20,20]\<close> produces the triangle
  \<open>(10,10)\<close>, \<open>(20,10)\<close>, \<open>(10,20)\<close>, of area 50, as exactly one output triangle.
\<close>

theorem scenario_clipped_triangle:
  assumes "cv_x a = 0" "cv_y a = 0" "cv_x b = 30" "cv_y b = 0" "cv_x c = 0" "cv_y c = 30"
  shows "map (\<lambda>p. (cv_x p, cv_y p)) (fst (EmitClippedTri a b c (rect 10 10 20 20) ([], [])))
           = [(10, 10), (20, 10), (10, 20)]
       \<and> poly_area (fst (EmitClippedTri a b c (rect 10 10 20 20) ([], []))) = 50
       \<and> snd (EmitClippedTri a b c (rect 10 10 20 20) ([], [])) = [0, 1, 2]"
  using assms
  by (simp add: EmitClippedTri_def clip_loop_unfold clip_side_zip clip_edge_def InsideBySide_def
      IntersectWithSide_def EPS_def Let_def rect_def poly_area_def fan_indices_def)

theorem scenario_clipped_triangle_witness:
  "map (\<lambda>p. (cv_x p, cv_y p)) (fst (EmitClippedTri (test_vert 0 0) (test_vert 30 0) (test_vert 0 30) (rect 10 10 20 20) ([], [])))
           = [(10, 10), (20, 10), (10, 20)]
       \<and> poly_area (fst (EmitClippedTri (test_vert 0 0) (test_vert 30 0) (test_vert 0 30) (rect 10 10 20 20) ([], []))) = 50
       \<and> snd (EmitClippedTri (test_vert 0 0) (test_vert 30 0) (test_vert 0 30) (rect 10 10 20 20) ([], [])) = [0, 1, 2]"
  using scenario_clipped_triangle [of "test_vert 0 0" "test_vert 30 0" "test_vert 0 30"]
  by (simp add: test_vert_def)

subsection \<open>Polygons inside the rectangle\<close>

lemma concat_singletons: "concat (map (\<lambda>(P, Q). [Q]) zs) = map snd zs"
  by (induction zs) auto

lemma clip_side_all_inside:
  assumes "\<forall>p\<in>set poly. InsideBySide p R side"
  shows "clip_side R side poly = rotate1 poly"
proof -
  have "map2 (clip_edge R side) poly (rotate1 poly) = map (\<lambda>(P, Q). [Q]) (zip poly (rotate1 poly))"
  proof (rule map_cong [OF refl])
    fix z assume z: "z \<in> set (zip poly (rotate1 poly))"
    obtain P Q where pq: "z = (P, Q)" by (cases z)
    from z pq have "P \<in> set poly" by (auto dest: set_zip_leftD)
    moreover from z pq have "Q \<in> set (rotate1 poly)" by (auto dest: set_zip_rightD)
    ultimately show "(case z of (P, Q) \<Rightarrow> clip_edge R side P Q) = (case z of (P, Q) \<Rightarrow> [Q])"
      using assms pq by (simp add: clip_edge_def)
  qed
  then have "clip_side R side poly = concat (map (\<lambda>(P, Q). [Q]) (zip poly (rotate1 poly)))"
    by (simp only: clip_side_zip)
  then show ?thesis by (simp add: concat_singletons)
qed

lemma clip_loop_all_inside:
  assumes "list_all (\<lambda>p. InRect p R) poly"
  shows "clip_loop R 0 poly = rotate 4 poly"
proof -
  have i: "\<And>s. s \<in> {0, 1, 2, 3} \<Longrightarrow> \<forall>p\<in>set poly. InsideBySide p R s"
    using assms by (auto simp: list_all_iff InRect_sides)
  have r: "rotate 4 poly = rotate1 (rotate1 (rotate1 (rotate1 poly)))"
    by (simp add: eval_nat_numeral)
  have "clip_side R 0 poly = rotate1 poly"
    using i [of 0] by (simp add: clip_side_all_inside)
  moreover have "clip_side R 1 (rotate1 poly) = rotate1 (rotate1 poly)"
    using i [of 1] by (simp add: clip_side_all_inside)
  moreover have "clip_side R 2 (rotate1 (rotate1 poly)) = rotate1 (rotate1 (rotate1 poly))"
    using i [of 2] by (simp add: clip_side_all_inside)
  moreover have "clip_side R 3 (rotate1 (rotate1 (rotate1 poly))) = rotate1 (rotate1 (rotate1 (rotate1 poly)))"
    using i [of 3] by (simp add: clip_side_all_inside)
  ultimately show ?thesis by (simp add: clip_loop_unfold r)
qed

text \<open>
  Claim C3, as amended. For a triangle whose three vertices lie in the rectangle
  (boundaries included), the clipper emits the same three vertices, unchanged, in the same
  cyclic order but starting from the second: \<open>b, c, a\<close>. More generally the four passes
  map a polygon whose vertices all lie in the rectangle to its rotation by four positions
  (each pass keeps the end point of every edge, which rotates the polygon by one).
\<close>

theorem inside_triangle_rotated:
  "(InRect a R \<and> InRect b R \<and> InRect c R \<longrightarrow>
      EmitClippedTri a b c R (out_v, out_i)
        = (out_v @ [b, c, a],
           out_i @ [of_nat (length out_v), of_nat (length out_v) + 1, of_nat (length out_v) + 2]))
   \<and> (list_all (\<lambda>p. InRect p R) poly \<longrightarrow> clip_loop R 0 poly = rotate 4 poly)"
proof (intro conjI impI)
  assume "InRect a R \<and> InRect b R \<and> InRect c R"
  then have "clip_loop R 0 [a, b, c] = rotate 4 [a, b, c]"
    by (intro clip_loop_all_inside) simp
  then have "clip_loop R 0 [a, b, c] = [b, c, a]"
    by (simp add: eval_nat_numeral)
  then show "EmitClippedTri a b c R (out_v, out_i)
        = (out_v @ [b, c, a],
           out_i @ [of_nat (length out_v), of_nat (length out_v) + 1, of_nat (length out_v) + 2])"
    by (simp add: EmitClippedTri_def fan_indices_def Let_def add.commute)
next
  assume "list_all (\<lambda>p. InRect p R) poly"
  then show "clip_loop R 0 poly = rotate 4 poly" by (rule clip_loop_all_inside)
qed

theorem inside_triangle_rotated_witness:
  "InRect (test_vert 1 1) (rect 0 0 10 10)
   \<and> EmitClippedTri (test_vert 1 1) (test_vert 2 1) (test_vert 1 2) (rect 0 0 10 10) ([], [])
       = ([test_vert 2 1, test_vert 1 2, test_vert 1 1], [0, 1, 2])
   \<and> clip_loop (rect 0 0 10 10) 0 [test_vert 1 1, test_vert 2 1, test_vert 2 2, test_vert 1 2]
       = [test_vert 1 1, test_vert 2 1, test_vert 2 2, test_vert 1 2]"
proof -
  have i: "InRect (test_vert 1 1) (rect 0 0 10 10)" "InRect (test_vert 2 1) (rect 0 0 10 10)"
       "InRect (test_vert 1 2) (rect 0 0 10 10)" "InRect (test_vert 2 2) (rect 0 0 10 10)"
    by (simp_all add: InRect_def test_vert_def rect_def)
  have "EmitClippedTri (test_vert 1 1) (test_vert 2 1) (test_vert 1 2) (rect 0 0 10 10) ([], [])
       = ([test_vert 2 1, test_vert 1 2, test_vert 1 1], [0, 1, 2])"
    using inside_triangle_rotated [of "test_vert 1 1" "rect 0 0 10 10" "test_vert 2 1" "test_vert 1 2" "[]" "[]" "[]"] i
    by simp
  moreover have "clip_loop (rect 0 0 10 10) 0 [test_vert 1 1, test_vert 2 1, test_vert 2 2, test_vert 1 2]
       = [test_vert 1 1, test_vert 2 1, test_vert 2 2, test_vert 1 2]"
    using inside_triangle_rotated [of "test_vert 1 1" "rect 0 0 10 10" "test_vert 2 1" "test_vert 1 2" "[]" "[]"
          "[test_vert 1 1, test_vert 2 1, test_vert 2 2, test_vert 1 2]"] i
    by (simp add: eval_nat_numeral)
  ultimately show ?thesis using i by simp
qed

text \<open>
  Claim C3 as stated fails: the triangle \<open>(1,1), (2,1), (1,2)\<close> lies inside
  \<open>[0, 10] \<times> [0, 10]\<close> and the emitted vertex list is not the list of its vertices (it
  starts with \<open>(2,1)\<close>).
\<close>

theorem inside_triangle_counterexample:
  "InRect (test_vert 1 1) (rect 0 0 10 10) \<and> InRect (test_vert 2 1) (rect 0 0 10 10)
   \<and> InRect (test_vert 1 2) (rect 0 0 10 10)
   \<and> fst (EmitClippedTri (test_vert 1 1) (test_vert 2 1) (test_vert 1 2) (rect 0 0 10 10) ([], []))
       \<noteq> [test_vert 1 1, test_vert 2 1, test_vert 1 2]"
  by (simp add: EmitClippedTri_def clip_eval InRect_def)

subsection \<open>The near-zero-delta fallback\<close>




subsection \<open>Attribute interpolation\<close>


















subsection \<open>Capture and restore\<close>

lemmas api_defs = GetTransform_def SetTransform_def GetRenderState_def SetRenderState_def
  GetTexture_def SetTexture_def GetTextureStageState_def SetTextureStageState_def
  GetViewport_def SetViewport_def SurfaceRelease_def

lemma Capture_sel:
  "dev_transform (snd (Capture d)) = dev_transform d"
  "dev_render_state (snd (Capture d)) = dev_render_state d"
  "dev_texture (snd (Capture d)) = dev_texture d"
  "dev_tss (snd (Capture d)) = dev_tss d"
  "dev_viewport (snd (Capture d)) = dev_viewport d"
  "refcount (snd (Capture d)) = AddRef (dev_texture d 0) (refcount d)"
  "device.more (snd (Capture d)) = device.more d"
  by (simp_all add: Capture_def api_defs Let_def split_def)

lemma Capture_backup:
  "fst (Capture d) =
     \<lparr>world = dev_transform d D3DTRANSFORMSTATE_WORLD,
      view = dev_transform d D3DTRANSFORMSTATE_VIEW,
      proj = dev_transform d D3DTRANSFORMSTATE_PROJECTION,
      rs_alpha_blend = dev_render_state d D3DRENDERSTATE_ALPHABLENDENABLE,
      rs_src_blend = dev_render_state d D3DRENDERSTATE_SRCBLEND,
      rs_dst_blend = dev_render_state d D3DRENDERSTATE_DESTBLEND,
      rs_zenable = dev_render_state d D3DRENDERSTATE_ZENABLE,
      rs_zwrite = dev_render_state d D3DRENDERSTATE_ZWRITEENABLE,
      rs_cullmode = dev_render_state d D3DRENDERSTATE_CULLMODE,
      rs_lighting = dev_render_state d D3DRENDERSTATE_LIGHTING,
      rs_shade = dev_render_state d D3DRENDERSTATE_SHADEMODE,
      rs_fog = dev_render_state d D3DRENDERSTATE_FOGENABLE,
      rs_clipping = dev_render_state d D3DRENDERSTATE_CLIPPING,
      tex0 = dev_texture d 0,
      tss0_colorop = dev_tss d 0 D3DTSS_COLOROP,
      tss0_colorarg1 = dev_tss d 0 D3DTSS_COLORARG1,
      tss0_colorarg2 = dev_tss d 0 D3DTSS_COLORARG2,
      tss0_alphaop = dev_tss d 0 D3DTSS_ALPHAOP,
      tss0_alphaarg1 = dev_tss d 0 D3DTSS_ALPHAARG1,
      tss0_alphaarg2 = dev_tss d 0 D3DTSS_ALPHAARG2,
      tss1_colorop = dev_tss d 1 D3DTSS_COLOROP,
      tss1_alphaop = dev_tss d 1 D3DTSS_ALPHAOP,
      viewport = dev_viewport d\<rparr>"
  by (simp add: Capture_def api_defs Let_def split_def)

lemma SetTransform_sel [simp]:
  "dev_transform (SetTransform t m d) = (dev_transform d)(t := m)"
  "dev_render_state (SetTransform t m d) = dev_render_state d"
  "dev_texture (SetTransform t m d) = dev_texture d"
  "dev_tss (SetTransform t m d) = dev_tss d"
  "dev_viewport (SetTransform t m d) = dev_viewport d"
  "refcount (SetTransform t m d) = refcount d"
  "calls (SetTransform t m d) = calls d @ [Set (Transform t)]"
  "device.more (SetTransform t m d) = device.more d"
  by (simp_all add: SetTransform_def)

lemma SetRenderState_sel [simp]:
  "dev_transform (SetRenderState s v d) = dev_transform d"
  "dev_render_state (SetRenderState s v d) = (dev_render_state d)(s := v)"
  "dev_texture (SetRenderState s v d) = dev_texture d"
  "dev_tss (SetRenderState s v d) = dev_tss d"
  "dev_viewport (SetRenderState s v d) = dev_viewport d"
  "refcount (SetRenderState s v d) = refcount d"
  "calls (SetRenderState s v d) = calls d @ [Set (RenderState s)]"
  "device.more (SetRenderState s v d) = device.more d"
  by (simp_all add: SetRenderState_def)

lemma SetTexture_sel [simp]:
  "dev_transform (SetTexture stage tex d) = dev_transform d"
  "dev_render_state (SetTexture stage tex d) = dev_render_state d"
  "dev_texture (SetTexture stage tex d) = (dev_texture d)(stage := tex)"
  "dev_tss (SetTexture stage tex d) = dev_tss d"
  "dev_viewport (SetTexture stage tex d) = dev_viewport d"
  "refcount (SetTexture stage tex d) = DropRef (dev_texture d stage) (AddRef tex (refcount d))"
  "calls (SetTexture stage tex d) = calls d @ [Set (Texture stage)]"
  "device.more (SetTexture stage tex d) = device.more d"
  by (simp_all add: SetTexture_def)

lemma SetTextureStageState_sel [simp]:
  "dev_transform (SetTextureStageState stage s v d) = dev_transform d"
  "dev_render_state (SetTextureStageState stage s v d) = dev_render_state d"
  "dev_texture (SetTextureStageState stage s v d) = dev_texture d"
  "dev_tss (SetTextureStageState stage s v d) = (dev_tss d)(stage := (dev_tss d stage)(s := v))"
  "dev_viewport (SetTextureStageState stage s v d) = dev_viewport d"
  "refcount (SetTextureStageState stage s v d) = refcount d"
  "calls (SetTextureStageState stage s v d) = calls d @ [Set (TextureStageState stage s)]"
  "device.more (SetTextureStageState stage s v d) = device.more d"
  by (simp_all add: SetTextureStageState_def)

lemma SetViewport_sel [simp]:
  "dev_transform (SetViewport vp d) = dev_transform d"
  "dev_render_state (SetViewport vp d) = dev_render_state d"
  "dev_texture (SetViewport vp d) = dev_texture d"
  "dev_tss (SetViewport vp d) = dev_tss d"
  "dev_viewport (SetViewport vp d) = vp"
  "refcount (SetViewport vp d) = refcount d"
  "calls (SetViewport vp d) = calls d @ [Set Viewport]"
  "device.more (SetViewport vp d) = device.more d"
  by (simp_all add: SetViewport_def)

lemma SurfaceRelease_sel [simp]:
  "dev_transform (SurfaceRelease s d) = dev_transform d"
  "dev_render_state (SurfaceRelease s d) = dev_render_state d"
  "dev_texture (SurfaceRelease s d) = dev_texture d"
  "dev_tss (SurfaceRelease s d) = dev_tss d"
  "dev_viewport (SurfaceRelease s d) = dev_viewport d"
  "refcount (SurfaceRelease s d) = DropRef (Some s) (refcount d)"
  "calls (SurfaceRelease s d) = calls d @ [Release s]"
  "device.more (SurfaceRelease s d) = device.more d"
  by (simp_all add: SurfaceRelease_def)

lemma Restore_transform:
  "dev_transform (Restore b d) = (dev_transform d)
     (D3DTRANSFORMSTATE_WORLD := world b, D3DTRANSFORMSTATE_VIEW := view b,
      D3DTRANSFORMSTATE_PROJECTION := proj b)"
  by (simp add: Restore_def Let_def split: option.split)

lemma Restore_render_state:
  "dev_render_state (Restore b d) = (dev_render_state d)
     (D3DRENDERSTATE_ALPHABLENDENABLE := rs_alpha_blend b, D3DRENDERSTATE_SRCBLEND := rs_src_blend b,
      D3DRENDERSTATE_DESTBLEND := rs_dst_blend b, D3DRENDERSTATE_ZENABLE := rs_zenable b,
      D3DRENDERSTATE_ZWRITEENABLE := rs_zwrite b, D3DRENDERSTATE_CULLMODE := rs_cullmode b,
      D3DRENDERSTATE_LIGHTING := rs_lighting b, D3DRENDERSTATE_SHADEMODE := rs_shade b,
      D3DRENDERSTATE_FOGENABLE := rs_fog b, D3DRENDERSTATE_CLIPPING := rs_clipping b)"
  by (simp add: Restore_def Let_def split: option.split)

lemma Restore_texture:
  "dev_texture (Restore b d) = (dev_texture d)(0 := tex0 b)"
  by (simp add: Restore_def Let_def split: option.split)

lemma Restore_refcount:
  "refcount (Restore b d) = DropRef (tex0 b) (DropRef (dev_texture d 0) (AddRef (tex0 b) (refcount d)))"
  by (simp add: Restore_def Let_def DropRef_def split: option.split)

lemma Restore_tss:
  "dev_tss (Restore b d) = (dev_tss d)
     (0 := (dev_tss d 0)(D3DTSS_COLOROP := tss0_colorop b, D3DTSS_COLORARG1 := tss0_colorarg1 b,
            D3DTSS_COLORARG2 := tss0_colorarg2 b, D3DTSS_ALPHAOP := tss0_alphaop b,
            D3DTSS_ALPHAARG1 := tss0_alphaarg1 b, D3DTSS_ALPHAARG2 := tss0_alphaarg2 b),
      1 := (dev_tss d 1)(D3DTSS_COLOROP := tss1_colorop b, D3DTSS_ALPHAOP := tss1_alphaop b))"
  by (simp add: Restore_def Let_def split: option.split)

lemma Restore_viewport: "dev_viewport (Restore b d) = viewport b"
  by (simp add: Restore_def Let_def split: option.split)

lemma Restore_more: "device.more (Restore b d) = device.more d"
  by (simp add: Restore_def Let_def split: option.split)

lemma AddRef_DropRef: "DropRef p (DropRef p (AddRef p (AddRef p rc))) = rc"
  by (cases p) (auto simp: AddRef_def DropRef_def)

lemma Capture_Restore_state:
  "(Restore (fst (Capture d)) (snd (Capture d)))\<lparr>calls := calls d\<rparr> = d"
proof (rule device.equality)
  show "dev_transform ((Restore (fst (Capture d)) (snd (Capture d)))\<lparr>calls := calls d\<rparr>) = dev_transform d"
    by (simp add: Capture_sel Restore_transform Capture_backup)
  show "dev_render_state ((Restore (fst (Capture d)) (snd (Capture d)))\<lparr>calls := calls d\<rparr>) = dev_render_state d"
    by (simp add: Capture_sel Restore_render_state Capture_backup)
  show "dev_texture ((Restore (fst (Capture d)) (snd (Capture d)))\<lparr>calls := calls d\<rparr>) = dev_texture d"
    by (simp add: Capture_sel Restore_texture Capture_backup)
  show "dev_tss ((Restore (fst (Capture d)) (snd (Capture d)))\<lparr>calls := calls d\<rparr>) = dev_tss d"
    by (simp add: Capture_sel Restore_tss Capture_backup)
  show "dev_viewport ((Restore (fst (Capture d)) (snd (Capture d)))\<lparr>calls := calls d\<rparr>) = dev_viewport d"
    by (simp add: Restore_viewport Capture_backup)
  show "refcount ((Restore (fst (Capture d)) (snd (Capture d)))\<lparr>calls := calls d\<rparr>) = refcount d"
    by (simp add: Capture_sel Restore_refcount Capture_backup AddRef_DropRef)
  show "calls ((Restore (fst (Capture d)) (snd (Capture d)))\<lparr>calls := calls d\<rparr>) = calls d"
    by simp
  show "device.more ((Restore (fst (Capture d)) (snd (Capture d)))\<lparr>calls := calls d\<rparr>) = device.more d"
    by (simp add: Restore_more Capture_sel)
qed

lemma read_slots_Get [simp]: "read_slots (map Get ss) = ss"
  by (induction ss) (simp_all add: read_slots_def)

lemma written_slots_append: "written_slots (xs @ ys) = written_slots xs @ written_slots ys"
  by (simp add: written_slots_def)

lemma Capture_calls:
  "calls (snd (Capture d)) = calls d @ map Get
     [Transform D3DTRANSFORMSTATE_WORLD, Transform D3DTRANSFORMSTATE_VIEW,
      Transform D3DTRANSFORMSTATE_PROJECTION,
      RenderState D3DRENDERSTATE_ALPHABLENDENABLE, RenderState D3DRENDERSTATE_SRCBLEND,
      RenderState D3DRENDERSTATE_DESTBLEND, RenderState D3DRENDERSTATE_ZENABLE,
      RenderState D3DRENDERSTATE_ZWRITEENABLE, RenderState D3DRENDERSTATE_CULLMODE,
      RenderState D3DRENDERSTATE_LIGHTING, RenderState D3DRENDERSTATE_SHADEMODE,
      RenderState D3DRENDERSTATE_FOGENABLE, RenderState D3DRENDERSTATE_CLIPPING,
      Texture 0,
      TextureStageState 0 D3DTSS_COLOROP, TextureStageState 0 D3DTSS_COLORARG1,
      TextureStageState 0 D3DTSS_COLORARG2, TextureStageState 0 D3DTSS_ALPHAOP,
      TextureStageState 0 D3DTSS_ALPHAARG1, TextureStageState 0 D3DTSS_ALPHAARG2,
      TextureStageState 1 D3DTSS_COLOROP, TextureStageState 1 D3DTSS_ALPHAOP,
      Viewport]"
  by (simp add: Capture_def api_defs split_def Let_def)

lemma Restore_calls:
  "calls (Restore b d) = calls d @
     [Set (Transform D3DTRANSFORMSTATE_WORLD), Set (Transform D3DTRANSFORMSTATE_VIEW),
      Set (Transform D3DTRANSFORMSTATE_PROJECTION),
      Set (RenderState D3DRENDERSTATE_ALPHABLENDENABLE), Set (RenderState D3DRENDERSTATE_SRCBLEND),
      Set (RenderState D3DRENDERSTATE_DESTBLEND), Set (RenderState D3DRENDERSTATE_ZENABLE),
      Set (RenderState D3DRENDERSTATE_ZWRITEENABLE), Set (RenderState D3DRENDERSTATE_CULLMODE),
      Set (RenderState D3DRENDERSTATE_LIGHTING), Set (RenderState D3DRENDERSTATE_SHADEMODE),
      Set (RenderState D3DRENDERSTATE_FOGENABLE), Set (RenderState D3DRENDERSTATE_CLIPPING),
      Set (Texture 0)]
     @ (case tex0 b of None \<Rightarrow> [] | Some s \<Rightarrow> [Release s])
     @ [Set (TextureStageState 0 D3DTSS_COLOROP), Set (TextureStageState 0 D3DTSS_COLORARG1),
      Set (TextureStageState 0 D3DTSS_COLORARG2), Set (TextureStageState 0 D3DTSS_ALPHAOP),
      Set (TextureStageState 0 D3DTSS_ALPHAARG1), Set (TextureStageState 0 D3DTSS_ALPHAARG2),
      Set (TextureStageState 1 D3DTSS_COLOROP), Set (TextureStageState 1 D3DTSS_ALPHAOP),
      Set Viewport]"
  by (simp add: Restore_def Let_def split: option.split)

text \<open>
  Claim C6. On the device model of this theory, \<^verbatim>\<open>Capture\<close> followed at once by
  \<^verbatim>\<open>Restore\<close> leaves the device as it was, apart from the record of calls: transforms,
  render states, texture stage states, bound textures, viewport and the reference count of
  every surface are equal to their values before \<^verbatim>\<open>Capture\<close>. The state slots that
  \<^verbatim>\<open>Restore\<close> writes are, in order, the slots that \<^verbatim>\<open>Capture\<close> read.
\<close>

theorem Capture_then_Restore:
  "(Restore (fst (Capture d)) (snd (Capture d)))\<lparr>calls := calls d\<rparr> = d
   \<and> read_slots (drop (length (calls d)) (calls (snd (Capture d))))
       = written_slots (drop (length (calls (snd (Capture d))))
                          (calls (Restore (fst (Capture d)) (snd (Capture d)))))"
proof
  show "(Restore (fst (Capture d)) (snd (Capture d)))\<lparr>calls := calls d\<rparr> = d"
    by (rule Capture_Restore_state)
next
  have r: "read_slots (drop (length (calls d)) (calls (snd (Capture d)))) =
     [Transform D3DTRANSFORMSTATE_WORLD, Transform D3DTRANSFORMSTATE_VIEW,
      Transform D3DTRANSFORMSTATE_PROJECTION,
      RenderState D3DRENDERSTATE_ALPHABLENDENABLE, RenderState D3DRENDERSTATE_SRCBLEND,
      RenderState D3DRENDERSTATE_DESTBLEND, RenderState D3DRENDERSTATE_ZENABLE,
      RenderState D3DRENDERSTATE_ZWRITEENABLE, RenderState D3DRENDERSTATE_CULLMODE,
      RenderState D3DRENDERSTATE_LIGHTING, RenderState D3DRENDERSTATE_SHADEMODE,
      RenderState D3DRENDERSTATE_FOGENABLE, RenderState D3DRENDERSTATE_CLIPPING,
      Texture 0,
      TextureStageState 0 D3DTSS_COLOROP, TextureStageState 0 D3DTSS_COLORARG1,
      TextureStageState 0 D3DTSS_COLORARG2, TextureStageState 0 D3DTSS_ALPHAOP,
      TextureStageState 0 D3DTSS_ALPHAARG1, TextureStageState 0 D3DTSS_ALPHAARG2,
      TextureStageState 1 D3DTSS_COLOROP, TextureStageState 1 D3DTSS_ALPHAOP,
      Viewport]"
    unfolding Capture_calls by (simp del: list.map)
  have w: "written_slots (drop (length (calls d')) (calls (Restore b d'))) =
     [Transform D3DTRANSFORMSTATE_WORLD, Transform D3DTRANSFORMSTATE_VIEW,
      Transform D3DTRANSFORMSTATE_PROJECTION,
      RenderState D3DRENDERSTATE_ALPHABLENDENABLE, RenderState D3DRENDERSTATE_SRCBLEND,
      RenderState D3DRENDERSTATE_DESTBLEND, RenderState D3DRENDERSTATE_ZENABLE,
      RenderState D3DRENDERSTATE_ZWRITEENABLE, RenderState D3DRENDERSTATE_CULLMODE,
      RenderState D3DRENDERSTATE_LIGHTING, RenderState D3DRENDERSTATE_SHADEMODE,
      RenderState D3DRENDERSTATE_FOGENABLE, RenderState D3DRENDERSTATE_CLIPPING,
      Texture 0,
      TextureStageState 0 D3DTSS_COLOROP, TextureStageState 0 D3DTSS_COLORARG1,
      TextureStageState 0 D3DTSS_COLORARG2, TextureStageState 0 D3DTSS_ALPHAOP,
      TextureStageState 0 D3DTSS_ALPHAARG1, TextureStageState 0 D3DTSS_ALPHAARG2,
      TextureStageState 1 D3DTSS_COLOROP, TextureStageState 1 D3DTSS_ALPHAOP,
      Viewport]" for b d'
    unfolding Restore_calls by (cases "tex0 b") (simp_all add: written_slots_def)
  show "read_slots (drop (length (calls d)) (calls (snd (Capture d))))
       = written_slots (drop (length (calls (snd (Capture d))))
                          (calls (Restore (fst (Capture d)) (snd (Capture d)))))"
    by (simp only: r w)
qed

theorem Capture_then_Restore_witness:
  "refcount (Restore (fst (Capture device0)) (snd (Capture device0))) 3 = 2
   \<and> refcount (snd (Capture device0)) 3 = 3
   \<and> dev_texture (Restore (fst (Capture device0)) (snd (Capture device0))) 0 = Some 3"
proof -
  have "refcount ((Restore (fst (Capture device0)) (snd (Capture device0)))\<lparr>calls := calls device0\<rparr>) = refcount device0"
    "dev_texture ((Restore (fst (Capture device0)) (snd (Capture device0)))\<lparr>calls := calls device0\<rparr>) = dev_texture device0"
    using Capture_then_Restore [of device0] by simp_all
  then show ?thesis
    by (simp add: Capture_sel AddRef_def device0_def)
qed

subsection \<open>Font texture upload\<close>

lemma CreateSurface_ok:
  "CreateSurface True w h mc pitch st =
     (True, st\<lparr>g_FontTexture := Some (next_surface st),
               surfaces := (surfaces st)(next_surface st \<mapsto>
                  \<lparr>surf_width = w, surf_height = h, surf_memory = mc, surf_refs = 1,
                   surf_rows = replicate h (replicate pitch 0)\<rparr>),
               next_surface := next_surface st + 1\<rparr>)"
  and CreateSurface_fail: "CreateSurface False w h mc pitch st = (False, st)"
  by (simp_all add: CreateSurface_def)

lemma ReleaseSurface_other:
  "s \<noteq> s' \<Longrightarrow> surfaces (ReleaseSurface s st) s' = surfaces st s'"
  by (simp add: ReleaseSurface_def split: option.split)

text \<open>
  Claim C8, as amended. A second upload while a font texture is still held is not
  rejected: when surface creation and the lock succeed it returns true, stores and
  publishes the new surface, and the previous surface is neither released nor referenced
  any more; releasing the font texture afterwards frees the new surface only.
\<close>

theorem second_upload_leaks:
  assumes "have_ddraw st" "vram_ok env \<or> sysmem_ok env" "lock_ok env"
    and "g_FontTexture st = Some old" "surfaces st old = Some sf" "old < next_surface st"
  shows "fst (ImGui_ImplDX7_CreateFontsTexture env pixels w h st) = True
       \<and> g_FontTexture (snd (ImGui_ImplDX7_CreateFontsTexture env pixels w h st)) = Some (next_surface st)
       \<and> Fonts_TexID (snd (ImGui_ImplDX7_CreateFontsTexture env pixels w h st)) = Some (next_surface st)
       \<and> next_surface st \<noteq> old
       \<and> surfaces (snd (ImGui_ImplDX7_CreateFontsTexture env pixels w h st)) old = Some sf
       \<and> surfaces (ImGui_ImplDX7_DestroyFontsTexture
                     (snd (ImGui_ImplDX7_CreateFontsTexture env pixels w h st))) old = Some sf"
proof (cases "vram_ok env")
  case True
  with assms show ?thesis
    by (simp add: ImGui_ImplDX7_CreateFontsTexture_def CreateSurface_ok
          ImGui_ImplDX7_DestroyFontsTexture_def ReleaseSurface_other Let_def)
next
  case False
  with assms have "sysmem_ok env" by simp
  with False assms show ?thesis
    by (simp add: ImGui_ImplDX7_CreateFontsTexture_def CreateSurface_ok CreateSurface_fail
          ImGui_ImplDX7_DestroyFontsTexture_def ReleaseSurface_other Let_def)
qed

lemma first_upload:
  "ImGui_ImplDX7_CreateFontsTexture outcome_ok [0xFF112233, 0x80445566] 2 1 font_state0
     = (True, \<lparr>have_ddraw = True, g_FontTexture = Some 1, Fonts_TexID = Some 1,
               surfaces = (\<lambda>_. None)(1 \<mapsto> \<lparr>surf_width = 2, surf_height = 1,
                   surf_memory = DDSCAPS_VIDEOMEMORY, surf_refs = 1,
                   surf_rows = [[0xFF332211, 0x80665544]]\<rparr>),
               next_surface = 2\<rparr>)"
  by (simp add: ImGui_ImplDX7_CreateFontsTexture_def CreateSurface_ok font_state0_def outcome_ok_def
        copy_pixels_def ImGui_ImplDX7_RgbaToBgra_def Let_def)

theorem second_upload_leaks_witness:
  "fst (ImGui_ImplDX7_CreateFontsTexture outcome_ok [0xFF112233, 0x80445566] 2 1
          (snd (ImGui_ImplDX7_CreateFontsTexture outcome_ok [0xFF112233, 0x80445566] 2 1 font_state0)))
   \<and> g_FontTexture (snd (ImGui_ImplDX7_CreateFontsTexture outcome_ok [0xFF112233, 0x80445566] 2 1
          (snd (ImGui_ImplDX7_CreateFontsTexture outcome_ok [0xFF112233, 0x80445566] 2 1 font_state0))))
       = Some 2
   \<and> surfaces (ImGui_ImplDX7_DestroyFontsTexture
        (snd (ImGui_ImplDX7_CreateFontsTexture outcome_ok [0xFF112233, 0x80445566] 2 1
          (snd (ImGui_ImplDX7_CreateFontsTexture outcome_ok [0xFF112233, 0x80445566] 2 1 font_state0))))) 1
       = Some \<lparr>surf_width = 2, surf_height = 1, surf_memory = DDSCAPS_VIDEOMEMORY, surf_refs = 1,
                surf_rows = [[0xFF332211, 0x80665544]]\<rparr>"
proof -
  let ?st1 = "snd (ImGui_ImplDX7_CreateFontsTexture outcome_ok [0xFF112233, 0x80445566] 2 1 font_state0)"
  let ?sf = "\<lparr>surf_width = 2, surf_height = 1, surf_memory = DDSCAPS_VIDEOMEMORY, surf_refs = 1,
        surf_rows = [[0xFF332211, 0x80665544 :: 32 word]]\<rparr>"
  have h: "have_ddraw ?st1" "vram_ok outcome_ok \<or> sysmem_ok outcome_ok" "lock_ok outcome_ok"
    "g_FontTexture ?st1 = Some 1" "surfaces ?st1 1 = Some ?sf" "1 < next_surface ?st1"
    "next_surface ?st1 = 2"
    unfolding first_upload by (simp_all add: outcome_ok_def)
  from second_upload_leaks [OF h(1-6), of "[0xFF112233, 0x80445566]" 2 1]
  show ?thesis unfolding h(7) by simp
qed

text \<open>
  Claim C8 as stated fails: after a first successful upload, a second upload returns true,
  and the surface of the first upload stays alive while \<^verbatim>\<open>g_FontTexture\<close> no longer points
  to it.
\<close>

theorem second_upload_counterexample:
  "fst (ImGui_ImplDX7_CreateFontsTexture outcome_ok [0xFF112233, 0x80445566] 2 1
          (snd (ImGui_ImplDX7_CreateFontsTexture outcome_ok [0xFF112233, 0x80445566] 2 1 font_state0)))
   \<and> g_FontTexture (snd (ImGui_ImplDX7_CreateFontsTexture outcome_ok [0xFF112233, 0x80445566] 2 1
          (snd (ImGui_ImplDX7_CreateFontsTexture outcome_ok [0xFF112233, 0x80445566] 2 1 font_state0))))
       \<noteq> Some 1
   \<and> surfaces (snd (ImGui_ImplDX7_CreateFontsTexture outcome_ok [0xFF112233, 0x80445566] 2 1
          (snd (ImGui_ImplDX7_CreateFontsTexture outcome_ok [0xFF112233, 0x80445566] 2 1 font_state0)))) 1
       \<noteq> None"
  unfolding first_upload
  by (simp add: ImGui_ImplDX7_CreateFontsTexture_def CreateSurface_ok outcome_ok_def Let_def)

subsection \<open>Clip rectangle of a command\<close>


text \<open>
  Claim C7. For a command without a callback, the corners of the clip rectangle are
  transformed exactly as a vertex at that position is (same origin, same scale); when the
  transformed rectangle is rejected, and in particular when its left side lies beyond the
  framebuffer width, the command does nothing: the device, with its record of calls, is
  unchanged (no texture is bound, no draw call is issued); otherwise the rectangle the
  triangles are clipped against is the transformed rectangle clamped to the framebuffer.
\<close>

theorem clip_rect_skip_or_clamp:
  assumes "UserCallback pcmd = None"
  shows
    "v4_x (clip_rect_fb (ctx_clip_off ctx) (ctx_clip_scale ctx) pcmd)
       = dx7_x (convert_vertex (ctx_clip_off ctx) (ctx_clip_scale ctx)
           \<lparr>vert_pos = \<lparr>v2_x = v4_x (ClipRect pcmd), v2_y = v4_y (ClipRect pcmd)\<rparr>, vert_uv = uv, vert_col = c\<rparr>)
   \<and> v4_y (clip_rect_fb (ctx_clip_off ctx) (ctx_clip_scale ctx) pcmd)
       = dx7_y (convert_vertex (ctx_clip_off ctx) (ctx_clip_scale ctx)
           \<lparr>vert_pos = \<lparr>v2_x = v4_x (ClipRect pcmd), v2_y = v4_y (ClipRect pcmd)\<rparr>, vert_uv = uv, vert_col = c\<rparr>)
   \<and> v4_z (clip_rect_fb (ctx_clip_off ctx) (ctx_clip_scale ctx) pcmd)
       = dx7_x (convert_vertex (ctx_clip_off ctx) (ctx_clip_scale ctx)
           \<lparr>vert_pos = \<lparr>v2_x = v4_z (ClipRect pcmd), v2_y = v4_w (ClipRect pcmd)\<rparr>, vert_uv = uv, vert_col = c\<rparr>)
   \<and> v4_w (clip_rect_fb (ctx_clip_off ctx) (ctx_clip_scale ctx) pcmd)
       = dx7_y (convert_vertex (ctx_clip_off ctx) (ctx_clip_scale ctx)
           \<lparr>vert_pos = \<lparr>v2_x = v4_z (ClipRect pcmd), v2_y = v4_w (ClipRect pcmd)\<rparr>, vert_uv = uv, vert_col = c\<rparr>)
   \<and> (rejected (ctx_fb_width ctx) (ctx_fb_height ctx)
          (clip_rect_fb (ctx_clip_off ctx) (ctx_clip_scale ctx) pcmd)
        \<longrightarrow> render_cmd ctx gvo gio pcmd d = Inr d)
   \<and> (v4_x (clip_rect_fb (ctx_clip_off ctx) (ctx_clip_scale ctx) pcmd) > of_int (ctx_fb_width ctx)
        \<longrightarrow> render_cmd ctx gvo gio pcmd d = Inr d)
   \<and> (\<not> rejected (ctx_fb_width ctx) (ctx_fb_height ctx)
            (clip_rect_fb (ctx_clip_off ctx) (ctx_clip_scale ctx) pcmd)
        \<longrightarrow> (\<exists>R. clamp_clip_rect (ctx_fb_width ctx) (ctx_fb_height ctx)
                   (clip_rect_fb (ctx_clip_off ctx) (ctx_clip_scale ctx) pcmd) = Some R
              \<and> v4_x R = max 0 (v4_x (clip_rect_fb (ctx_clip_off ctx) (ctx_clip_scale ctx) pcmd))
              \<and> v4_y R = max 0 (v4_y (clip_rect_fb (ctx_clip_off ctx) (ctx_clip_scale ctx) pcmd))
              \<and> v4_z R = min (of_int (ctx_fb_width ctx))
                              (v4_z (clip_rect_fb (ctx_clip_off ctx) (ctx_clip_scale ctx) pcmd))
              \<and> v4_w R = min (of_int (ctx_fb_height ctx))
                              (v4_w (clip_rect_fb (ctx_clip_off ctx) (ctx_clip_scale ctx) pcmd))
              \<and> 0 \<le> v4_x R \<and> v4_z R \<le> of_int (ctx_fb_width ctx)
              \<and> 0 \<le> v4_y R \<and> v4_w R \<le> of_int (ctx_fb_height ctx)
              \<and> render_cmd ctx gvo gio pcmd d =
                  (case clip_triangles (ctx_vbuf ctx) (ctx_ibuf ctx) (VtxOffset pcmd + gvo)
                          (IdxOffset pcmd + gio) R (ElemCount pcmd) 0 ([], []) of
                     None \<Rightarrow> Inl OutOfBounds
                   | Some (cv, ci) \<Rightarrow>
                       Inr (if ci \<noteq> [] then DrawIndexedPrimitiveCall cv ci (SetTexture 0 (TexID pcmd) d)
                            else SetTexture 0 (TexID pcmd) d))))"
  using assms
  by (auto simp: clip_rect_fb_def convert_vertex_def rejected_def render_cmd_def clamp_clip_rect_def
        Let_def max_def min_def)

lemma test_ctx_sel:
  "ctx_clip_off test_ctx = \<lparr>v2_x = 0, v2_y = 0\<rparr>" "ctx_clip_scale test_ctx = \<lparr>v2_x = 1, v2_y = 1\<rparr>"
  "ctx_fb_width test_ctx = 640" "ctx_fb_height test_ctx = 480"
  by (simp_all add: test_ctx_def)

theorem clip_rect_skip_or_clamp_witness:
  "UserCallback (test_cmd (rect 700 10 800 100)) = None
   \<and> v4_x (clip_rect_fb (ctx_clip_off test_ctx) (ctx_clip_scale test_ctx) (test_cmd (rect 700 10 800 100))) = 700
   \<and> render_cmd test_ctx 0 0 (test_cmd (rect 700 10 800 100)) device0 = Inr device0
   \<and> clamp_clip_rect 640 480 (clip_rect_fb (ctx_clip_off test_ctx) (ctx_clip_scale test_ctx)
         (test_cmd (rect 600 (- 5) 700 100))) = Some (rect 600 0 640 100)"
proof -
  have u: "UserCallback (test_cmd r) = None" for r by (simp add: test_cmd_def)
  have cr: "clip_rect_fb (ctx_clip_off test_ctx) (ctx_clip_scale test_ctx) (test_cmd (rect x0 y0 x1 y1))
      = rect x0 y0 x1 y1" for x0 y0 x1 y1
    by (simp add: clip_rect_fb_def test_ctx_sel test_cmd_def rect_def)
  have cr': "clip_rect_fb \<lparr>v2_x = 0, v2_y = 0\<rparr> \<lparr>v2_x = 1, v2_y = 1\<rparr> (test_cmd (rect x0 y0 x1 y1))
      = rect x0 y0 x1 y1" for x0 y0 x1 y1
    using cr [of x0 y0 x1 y1] by (simp add: test_ctx_sel)
  have beyond: "v4_x (rect 700 10 800 100) > of_int (640 :: int)" by (simp add: rect_def)
  have notrej: "\<not> rejected 640 480 (rect 600 (- 5) 700 100)" by (simp add: rejected_def rect_def)
  from clip_rect_skip_or_clamp [OF u, of test_ctx "rect 700 10 800 100" _ _ 0 0 device0] beyond
  have 1: "render_cmd test_ctx 0 0 (test_cmd (rect 700 10 800 100)) device0 = Inr device0"
    unfolding test_ctx_sel cr' by blast
  from clip_rect_skip_or_clamp [OF u, of test_ctx "rect 600 (- 5) 700 100" _ _ 0 0 device0] notrej
  obtain R where "clamp_clip_rect 640 480 (rect 600 (- 5) 700 100) = Some R"
    "v4_x R = max 0 (v4_x (rect 600 (- 5) 700 100))" "v4_y R = max 0 (v4_y (rect 600 (- 5) 700 100))"
    "v4_z R = min (of_int 640) (v4_z (rect 600 (- 5) 700 100))"
    "v4_w R = min (of_int 480) (v4_w (rect 600 (- 5) 700 100))"
    unfolding test_ctx_sel cr' by blast
  then have 2: "clamp_clip_rect 640 480 (rect 600 (- 5) 700 100) = Some (rect 600 0 640 100)"
    by (simp add: rect_def)
  from 1 2 u show ?thesis unfolding cr by (simp add: rect_def)
qed

subsection \<open>Fan triangulation and draw calls\<close>

declare clip_triangles.simps [simp del]

lemma length_fan_indices: "length (fan_indices base n) = 3 * (n - 2)"
proof -
  have "length (concat (map (\<lambda>i. [base, base + of_nat i, base + of_nat i + 1]) xs)) = 3 * length xs"
    for xs :: "nat list"
    by (induction xs) auto
  then show ?thesis by (simp add: fan_indices_def)
qed

lemma set_fan_indices:
  assumes "k \<in> set (fan_indices base n)"
  shows "\<exists>i < n. k = base + of_nat i"
proof -
  from assms obtain i where i: "1 \<le> i" "i < n - 1" "k = base \<or> k = base + of_nat i \<or> k = base + of_nat i + 1"
    by (auto simp: fan_indices_def split: if_splits)
  from i(3) consider "k = base + of_nat 0" | "k = base + of_nat i" | "k = base + of_nat (Suc i)"
    by auto
  then show ?thesis
  proof cases
    case 1 with i show ?thesis by (intro exI [of _ 0]) simp
  next
    case 2 with i show ?thesis by (intro exI [of _ i]) simp
  next
    case 3 with i show ?thesis by (intro exI [of _ "Suc i"]) simp
  qed
qed

lemma unat_base_plus:
  assumes "L + i < 65536"
  shows "unat ((of_nat L :: 16 word) + of_nat i) = L + i"
proof -
  have "(of_nat L :: 16 word) + of_nat i = of_nat (L + i)" by simp
  then show ?thesis using assms by (simp add: unat_of_nat del: of_nat_add)
qed

lemma EmitClippedTri_length_indices:
  "length (snd (EmitClippedTri a b c R out)) = length (snd out) + 3 * (length (clip_loop R 0 [a, b, c]) - 2)"
  by (simp add: EmitClippedTri_def Let_def length_fan_indices)

lemma clip_triangles_dvd:
  assumes "clip_triangles vbuf ibuf voff ioff R n t out = Some res" "3 dvd length (snd out)"
  shows "3 dvd length (snd res)"
  using assms
proof (induction vbuf ibuf voff ioff R n t out rule: clip_triangles.induct)
  case (1 vbuf ibuf voff ioff R n t out)
  show ?case
  proof (cases "t < n")
    case False
    with "1.prems" show ?thesis by (simp add: clip_triangles.simps)
  next
    case True
    with "1.prems"(1) obtain i0 i1 i2 A B C where
      r: "read_at ibuf (ioff + t) = Some i0" "read_at ibuf (ioff + t + 1) = Some i1"
         "read_at ibuf (ioff + t + 2) = Some i2"
         "read_at vbuf (voff + unat i0) = Some A" "read_at vbuf (voff + unat i1) = Some B"
         "read_at vbuf (voff + unat i2) = Some C"
      and rec: "clip_triangles vbuf ibuf voff ioff R n (t + 3)
                  (EmitClippedTri (toCV A) (toCV B) (toCV C) R out) = Some res"
      by (subst (asm) clip_triangles.simps) (auto split: option.splits)
    have "3 dvd length (snd (EmitClippedTri (toCV A) (toCV B) (toCV C) R out))"
      using "1.prems"(2) by (simp add: EmitClippedTri_length_indices)
    from "1.IH" [OF True refl r(1) refl r(2) r(3) refl r(4) refl r(5) r(6) rec this]
    show ?thesis by simp
  qed
qed

lemma render_cmd_calls:
  assumes "UserCallback pcmd = None" "render_cmd ctx gvo gio pcmd d = Inr d'"
    and "DrawIndexedPrimitive cv ci \<in> set (drop (length (calls d)) (calls d'))"
  shows "3 dvd length ci"
proof (cases "clamp_clip_rect (ctx_fb_width ctx) (ctx_fb_height ctx)
                  (clip_rect_fb (ctx_clip_off ctx) (ctx_clip_scale ctx) pcmd)")
  case None
  with assms show ?thesis by (simp add: render_cmd_def)
next
  case (Some R)
  with assms(1,2) obtain cv' ci' where
    ct: "clip_triangles (ctx_vbuf ctx) (ctx_ibuf ctx) (VtxOffset pcmd + gvo)
           (IdxOffset pcmd + gio) R (ElemCount pcmd) 0 ([], []) = Some (cv', ci')"
    and d': "d' = (if ci' \<noteq> [] then DrawIndexedPrimitiveCall cv' ci' (SetTexture 0 (TexID pcmd) d)
                   else SetTexture 0 (TexID pcmd) d)"
    by (auto simp: render_cmd_def Let_def split: option.splits)
  from clip_triangles_dvd [OF ct] have "3 dvd length ci'" by simp
  with assms(3) d' show ?thesis
    by (auto simp: DrawIndexedPrimitiveCall_def split: if_splits)
qed

text \<open>
  Claim C10. When the clipped polygon has \<open>n \<ge> 3\<close> vertices, \<^verbatim>\<open>EmitClippedTri\<close> appends
  exactly these \<open>n\<close> vertices and exactly \<open>3 * (n - 2)\<close> indices, and, provided the vertex
  count after the call does not exceed \<open>2\<^sup>1\<^sup>6\<close>, every appended index lies in
  \<open>[base, base + n - 1]\<close>, where \<open>base\<close> is the vertex count before the call. The index
  count of every draw call a command without callback submits is a multiple of 3.
\<close>

theorem fan_triangulation:
  "(3 \<le> length (clip_loop R 0 [a, b, c]) \<longrightarrow>
      fst (EmitClippedTri a b c R (out_v, out_i)) = out_v @ clip_loop R 0 [a, b, c]
    \<and> take (length out_i) (snd (EmitClippedTri a b c R (out_v, out_i))) = out_i
    \<and> length (snd (EmitClippedTri a b c R (out_v, out_i)))
        = length out_i + 3 * (length (clip_loop R 0 [a, b, c]) - 2)
    \<and> (length out_v + length (clip_loop R 0 [a, b, c]) \<le> 65536 \<longrightarrow>
        (\<forall>k \<in> set (drop (length out_i) (snd (EmitClippedTri a b c R (out_v, out_i)))).
            length out_v \<le> unat k \<and> unat k \<le> length out_v + length (clip_loop R 0 [a, b, c]) - 1)))
   \<and> (UserCallback pcmd = None \<and> render_cmd ctx gvo gio pcmd d = Inr d' \<longrightarrow>
        (\<forall>cv ci. DrawIndexedPrimitive cv ci \<in> set (drop (length (calls d)) (calls d'))
                 \<longrightarrow> 3 dvd length ci))"
proof (intro conjI impI ballI allI)
  assume n: "3 \<le> length (clip_loop R 0 [a, b, c])"
  then show "fst (EmitClippedTri a b c R (out_v, out_i)) = out_v @ clip_loop R 0 [a, b, c]"
    by (simp add: EmitClippedTri_def Let_def)
  from n show "take (length out_i) (snd (EmitClippedTri a b c R (out_v, out_i))) = out_i"
    by (simp add: EmitClippedTri_def Let_def)
  show "length (snd (EmitClippedTri a b c R (out_v, out_i)))
        = length out_i + 3 * (length (clip_loop R 0 [a, b, c]) - 2)"
    by (simp add: EmitClippedTri_length_indices)
next
  fix k
  assume n: "3 \<le> length (clip_loop R 0 [a, b, c])"
    and small: "length out_v + length (clip_loop R 0 [a, b, c]) \<le> 65536"
    and k: "k \<in> set (drop (length out_i) (snd (EmitClippedTri a b c R (out_v, out_i))))"
  from n k have "k \<in> set (fan_indices (of_nat (length out_v)) (length (clip_loop R 0 [a, b, c])))"
    by (simp add: EmitClippedTri_def Let_def)
  then obtain i where i: "i < length (clip_loop R 0 [a, b, c])" "k = of_nat (length out_v) + of_nat i"
    using set_fan_indices by blast
  with small have "unat k = length out_v + i"
    by (simp add: unat_base_plus)
  with i show "length out_v \<le> unat k"
    and "unat k \<le> length out_v + length (clip_loop R 0 [a, b, c]) - 1"
    by simp_all
next
  fix cv ci
  assume "UserCallback pcmd = None \<and> render_cmd ctx gvo gio pcmd d = Inr d'"
    and "DrawIndexedPrimitive cv ci \<in> set (drop (length (calls d)) (calls d'))"
  then show "3 dvd length ci" using render_cmd_calls by blast
qed

lemma render_test_cmd:
  "render_cmd test_ctx 0 0 (test_cmd (rect 10 10 20 20)) device0
     = Inr (DrawIndexedPrimitiveCall [test_vert 10 10, test_vert 20 10, test_vert 10 20] [0, 1, 2]
             (SetTexture 0 (Some 3) device0))"
  by (simp add: render_cmd_def test_cmd_def test_ctx_def clip_rect_fb_def clamp_clip_rect_def rect_def
        clip_triangles.simps read_at_def toCV_def EmitClippedTri_def clip_loop_unfold clip_side_zip
        clip_edge_def InsideBySide_def IntersectWithSide_def InterpolateRest_def EPS_def Let_def
        fan_indices_def test_vert_def lerpB_def float_to_int_def channel_def)

theorem fan_triangulation_witness:
  "length (clip_loop (rect 0 0 10 10) 0 [test_vert 1 1, test_vert 2 1, test_vert 1 2]) = 3
   \<and> snd (EmitClippedTri (test_vert 1 1) (test_vert 2 1) (test_vert 1 2) (rect 0 0 10 10)
            ([test_vert 0 0, test_vert 0 0], [7])) = [7, 2, 3, 4]
   \<and> list_all (\<lambda>k. 2 \<le> unat k \<and> unat k \<le> 4)
        (drop 1 (snd (EmitClippedTri (test_vert 1 1) (test_vert 2 1) (test_vert 1 2) (rect 0 0 10 10)
            ([test_vert 0 0, test_vert 0 0], [7]))))
   \<and> 3 dvd length [0, 1, 2 :: 16 word]"
proof -
  let ?R = "rect 0 0 10 10"
  have n: "clip_loop ?R 0 [test_vert 1 1, test_vert 2 1, test_vert 1 2]
             = [test_vert 2 1, test_vert 1 2, test_vert 1 1]"
    by (simp add: clip_eval)
  have Suc2: "Suc (Suc 0) = 2" and Suc4: "Suc (Suc (Suc (Suc 0))) = 4" by simp_all
  note t = fan_triangulation [of ?R "test_vert 1 1" "test_vert 2 1" "test_vert 1 2"
      "[test_vert 0 0, test_vert 0 0]" "[7]" "test_cmd (rect 10 10 20 20)" test_ctx 0 0 device0
      "DrawIndexedPrimitiveCall [test_vert 10 10, test_vert 20 10, test_vert 10 20] [0, 1, 2]
             (SetTexture 0 (Some 3) device0)"]
  from t have a: "list_all (\<lambda>k. 2 \<le> unat k \<and> unat k \<le> 4)
        (drop 1 (snd (EmitClippedTri (test_vert 1 1) (test_vert 2 1) (test_vert 1 2) ?R
            ([test_vert 0 0, test_vert 0 0], [7]))))"
    unfolding n by (simp add: list_all_iff Suc2 Suc4)
  from t have b: "3 dvd length [0, 1, 2 :: 16 word]"
    unfolding render_test_cmd
    by (simp add: test_cmd_def DrawIndexedPrimitiveCall_def device0_def)
  have c: "snd (EmitClippedTri (test_vert 1 1) (test_vert 2 1) (test_vert 1 2) ?R
            ([test_vert 0 0, test_vert 0 0], [7])) = [7, 2, 3, 4]"
    by (simp add: EmitClippedTri_def n fan_indices_def)
  from a b c n show ?thesis by simp
qed

subsection \<open>The size of the clipped polygon\<close>































end
